theory Spec2Isabelle
  imports Main
begin

section \<open>Python values, strings and exceptions\<close>

text \<open>
  The repository consists of two Streamlit pages, \<^verbatim>\<open>hazard_checker.py\<close> and
  \<^verbatim>\<open>chemical_safety_checker.py\<close>. This theory embeds their functions as HOL functions.

  A Python \<^verbatim>\<open>str\<close> is modelled by its UTF-8 encoding, a \<^typ>\<open>string\<close>. The encoding is
  injective and commutes with concatenation; the only character the code searches for
  is the ASCII colon, which never occurs inside a multi-byte sequence, so membership of
  \<^verbatim>\<open>':'\<close> and \<^verbatim>\<open>split(':')\<close> act on the encoding as they act on the code points.

  The pictograms of the lookup tables are written as their UTF-8 bytes:
  COLLISION is U+1F4A5, FIRE U+1F525, DROPLET U+1F4A7, ARROWS U+1F504, EXCLAMATION U+2757,
  AMPHORA U+1F3FA, SNOWFLAKE U+2744 U+FE0F, HIGH_VOLTAGE U+26A1,
  SKULL_CROSSBONES U+2620 U+FE0F, WARNING_SIGN U+26A0 U+FE0F, EYE U+1F441 U+FE0F,
  BRAIN U+1F9E0, FISH U+1F41F, SKULL U+1F480, QUESTION_MARK U+2753.
\<close>

abbreviation COLLISION :: string where "COLLISION \<equiv> [CHR 0xF0, CHR 0x9F, CHR 0x92, CHR 0xA5]"
abbreviation FIRE :: string where "FIRE \<equiv> [CHR 0xF0, CHR 0x9F, CHR 0x94, CHR 0xA5]"
abbreviation DROPLET :: string where "DROPLET \<equiv> [CHR 0xF0, CHR 0x9F, CHR 0x92, CHR 0xA7]"
abbreviation ARROWS :: string where "ARROWS \<equiv> [CHR 0xF0, CHR 0x9F, CHR 0x94, CHR 0x84]"
abbreviation EXCLAMATION :: string where "EXCLAMATION \<equiv> [CHR 0xE2, CHR 0x9D, CHR 0x97]"
abbreviation AMPHORA :: string where "AMPHORA \<equiv> [CHR 0xF0, CHR 0x9F, CHR 0x8F, CHR 0xBA]"
abbreviation SNOWFLAKE :: string where "SNOWFLAKE \<equiv> [CHR 0xE2, CHR 0x9D, CHR 0x84, CHR 0xEF, CHR 0xB8, CHR 0x8F]"
abbreviation HIGH_VOLTAGE :: string where "HIGH_VOLTAGE \<equiv> [CHR 0xE2, CHR 0x9A, CHR 0xA1]"
abbreviation SKULL_CROSSBONES :: string where "SKULL_CROSSBONES \<equiv> [CHR 0xE2, CHR 0x98, CHR 0xA0, CHR 0xEF, CHR 0xB8, CHR 0x8F]"
abbreviation WARNING_SIGN :: string where "WARNING_SIGN \<equiv> [CHR 0xE2, CHR 0x9A, CHR 0xA0, CHR 0xEF, CHR 0xB8, CHR 0x8F]"
abbreviation EYE :: string where "EYE \<equiv> [CHR 0xF0, CHR 0x9F, CHR 0x91, CHR 0x81, CHR 0xEF, CHR 0xB8, CHR 0x8F]"
abbreviation BRAIN :: string where "BRAIN \<equiv> [CHR 0xF0, CHR 0x9F, CHR 0xA7, CHR 0xA0]"
abbreviation FISH :: string where "FISH \<equiv> [CHR 0xF0, CHR 0x9F, CHR 0x90, CHR 0x9F]"
abbreviation SKULL :: string where "SKULL \<equiv> [CHR 0xF0, CHR 0x9F, CHR 0x92, CHR 0x80]"
abbreviation QUESTION_MARK :: string where "QUESTION_MARK \<equiv> [CHR 0xE2, CHR 0x9D, CHR 0x93]"

text \<open>
  The values that reach the code from outside are decoded JSON (the result of
  \<^verbatim>\<open>response.json()\<close>) and strings. An entry of a hazard list is either a string
  (a piece of a hazard statement) or whatever JSON value \<^verbatim>\<open>interpret_hazards\<close> found under
  \<^verbatim>\<open>coord['aid']\<close>. The code observes three things of such a value: whether it is a
  \<^verbatim>\<open>str\<close>, whether it is hashable (lists and dicts are not), and its text under
  \<^verbatim>\<open>str()\<close>. JSON numbers are integers here; nothing in the code computes with them.
\<close>

datatype json =
    JNull
  | JBool bool
  | JInt int
  | JStr string
  | JArr "json list"
  | JObj "(string \<times> json) list"

text \<open>The exceptions that the modelled statements can raise; all are subclasses of
  Python's \<^verbatim>\<open>Exception\<close>.\<close>

datatype py_exception =
    KeyError
  | IndexError
  | TypeError
  | JSONDecodeError
  | RequestException

text \<open>\<^verbatim>\<open>xs[0]\<close> on a list: \<^verbatim>\<open>IndexError\<close> when the list is empty.\<close>

definition index0 :: "'a list \<Rightarrow> py_exception + 'a" where
  "index0 xs = (case xs of [] \<Rightarrow> Inl IndexError | x # _ \<Rightarrow> Inr x)"

text \<open>\<^verbatim>\<open>s.split(sep)\<close> for a one-character separator: the pieces between the
  occurrences of the separator, empty pieces included.\<close>

fun str_split :: "char \<Rightarrow> string \<Rightarrow> string list" where
  "str_split sep [] = [[]]"
| "str_split sep (c # cs) =
     (if c = sep then [] # str_split sep cs
      else (case str_split sep cs of
              [] \<Rightarrow> [[c]]
            | w # ws \<Rightarrow> (c # w) # ws))"

text \<open>\<^verbatim>\<open>d.get(key, default)\<close> on a dict whose keys are all strings. A key that is not
  hashable raises \<^verbatim>\<open>TypeError\<close>; a hashable key that is not a string equals no key of
  the dict.\<close>

definition dict_get :: "(string \<times> 'v) list \<Rightarrow> json \<Rightarrow> 'v \<Rightarrow> py_exception + 'v" where
  "dict_get d key dflt =
     (case key of
        JStr s \<Rightarrow> Inr (case map_of d s of Some v \<Rightarrow> v | None \<Rightarrow> dflt)
      | JArr _ \<Rightarrow> Inl TypeError
      | JObj _ \<Rightarrow> Inl TypeError
      | _ \<Rightarrow> Inr dflt)"


section \<open>\<^verbatim>\<open>chemical_safety_checker.py\<close>: hazard codes, symbols and PPE\<close>

record hazard_info =
  symbol :: string
  name :: string

record ppe =
  item :: string
  description :: string

text \<open>The expression \<^verbatim>\<open>hazard.split(':')[0] if ':' in hazard else hazard\<close>, which
  occurs in \<^verbatim>\<open>get_ppe_recommendations\<close> and again in \<^verbatim>\<open>main\<close>.\<close>

definition hazard_code :: "string \<Rightarrow> py_exception + string" where
  "hazard_code hazard =
     (if CHR '':'' \<in> set hazard then index0 (str_split (CHR '':'') hazard)
      else Inr hazard)"

text \<open>The dict literal bound to the local variable \<^verbatim>\<open>hazard_map\<close> of
  \<^verbatim>\<open>hazard_to_symbol\<close>.\<close>

definition hazard_to_symbol_hazard_map :: "(string \<times> hazard_info) list" where
  "hazard_to_symbol_hazard_map = [
    (''H200'', \<lparr>symbol = COLLISION, name = ''Explosive''\<rparr>),
    (''H201'', \<lparr>symbol = COLLISION, name = ''Explosive: mass explosion hazard''\<rparr>),
    (''H202'', \<lparr>symbol = COLLISION, name = ''Explosive: severe projection hazard''\<rparr>),
    (''H220'', \<lparr>symbol = FIRE, name = ''Extremely flammable gas''\<rparr>),
    (''H221'', \<lparr>symbol = FIRE, name = ''Flammable gas''\<rparr>),
    (''H222'', \<lparr>symbol = FIRE, name = ''Extremely flammable aerosol''\<rparr>),
    (''H223'', \<lparr>symbol = FIRE, name = ''Flammable aerosol''\<rparr>),
    (''H224'', \<lparr>symbol = FIRE, name = ''Extremely flammable liquid and vapor''\<rparr>),
    (''H225'', \<lparr>symbol = FIRE, name = ''Highly flammable liquid and vapor''\<rparr>),
    (''H226'', \<lparr>symbol = FIRE, name = ''Flammable liquid and vapor''\<rparr>),
    (''H228'', \<lparr>symbol = FIRE, name = ''Flammable solid''\<rparr>),
    (''H240'', \<lparr>symbol = COLLISION @ FIRE, name = ''Heating may cause an explosion''\<rparr>),
    (''H241'', \<lparr>symbol = COLLISION @ FIRE, name = ''Heating may cause a fire or explosion''\<rparr>),
    (''H242'', \<lparr>symbol = FIRE, name = ''Heating may cause a fire''\<rparr>),
    (''H250'', \<lparr>symbol = FIRE, name = ''Catches fire spontaneously if exposed to air''\<rparr>),
    (''H251'', \<lparr>symbol = FIRE, name = ''Self-heating; may catch fire''\<rparr>),
    (''H252'', \<lparr>symbol = FIRE, name = ''Self-heating in large quantities; may catch fire''\<rparr>),
    (''H260'', \<lparr>symbol = DROPLET @ FIRE, name = ''In contact with water releases flammable gases which may ignite spontaneously''\<rparr>),
    (''H261'', \<lparr>symbol = DROPLET @ FIRE, name = ''In contact with water releases flammable gas''\<rparr>),
    (''H270'', \<lparr>symbol = FIRE @ ARROWS, name = ''May cause or intensify fire; oxidizer''\<rparr>),
    (''H271'', \<lparr>symbol = FIRE @ EXCLAMATION, name = ''May cause fire or explosion; strong oxidizer''\<rparr>),
    (''H272'', \<lparr>symbol = FIRE, name = ''May intensify fire; oxidizer''\<rparr>),
    (''H280'', \<lparr>symbol = AMPHORA, name = ''Contains gas under pressure; may explode if heated''\<rparr>),
    (''H281'', \<lparr>symbol = AMPHORA @ SNOWFLAKE, name = ''Contains refrigerated gas; may cause cryogenic burns or injury''\<rparr>),
    (''H290'', \<lparr>symbol = HIGH_VOLTAGE, name = ''May be corrosive to metals''\<rparr>),
    (''H300'', \<lparr>symbol = SKULL_CROSSBONES, name = ''Fatal if swallowed''\<rparr>),
    (''H301'', \<lparr>symbol = SKULL_CROSSBONES, name = ''Toxic if swallowed''\<rparr>),
    (''H302'', \<lparr>symbol = WARNING_SIGN, name = ''Harmful if swallowed''\<rparr>),
    (''H304'', \<lparr>symbol = WARNING_SIGN, name = ''May be fatal if swallowed and enters airways''\<rparr>),
    (''H310'', \<lparr>symbol = SKULL_CROSSBONES, name = ''Fatal in contact with skin''\<rparr>),
    (''H311'', \<lparr>symbol = SKULL_CROSSBONES, name = ''Toxic in contact with skin''\<rparr>),
    (''H312'', \<lparr>symbol = WARNING_SIGN, name = ''Harmful in contact with skin''\<rparr>),
    (''H314'', \<lparr>symbol = WARNING_SIGN, name = ''Causes severe skin burns and eye damage''\<rparr>),
    (''H315'', \<lparr>symbol = WARNING_SIGN, name = ''Causes skin irritation''\<rparr>),
    (''H317'', \<lparr>symbol = WARNING_SIGN, name = ''May cause an allergic skin reaction''\<rparr>),
    (''H318'', \<lparr>symbol = WARNING_SIGN @ EYE, name = ''Causes serious eye damage''\<rparr>),
    (''H319'', \<lparr>symbol = WARNING_SIGN @ EYE, name = ''Causes serious eye irritation''\<rparr>),
    (''H330'', \<lparr>symbol = SKULL_CROSSBONES, name = ''Fatal if inhaled''\<rparr>),
    (''H331'', \<lparr>symbol = SKULL_CROSSBONES, name = ''Toxic if inhaled''\<rparr>),
    (''H332'', \<lparr>symbol = WARNING_SIGN, name = ''Harmful if inhaled''\<rparr>),
    (''H334'', \<lparr>symbol = WARNING_SIGN, name = ''May cause allergy or asthma symptoms or breathing difficulties if inhaled''\<rparr>),
    (''H335'', \<lparr>symbol = WARNING_SIGN, name = ''May cause respiratory irritation''\<rparr>),
    (''H336'', \<lparr>symbol = WARNING_SIGN, name = ''May cause drowsiness or dizziness''\<rparr>),
    (''H340'', \<lparr>symbol = WARNING_SIGN, name = ''May cause genetic defects''\<rparr>),
    (''H341'', \<lparr>symbol = WARNING_SIGN, name = ''Suspected of causing genetic defects''\<rparr>),
    (''H350'', \<lparr>symbol = WARNING_SIGN, name = ''May cause cancer''\<rparr>),
    (''H351'', \<lparr>symbol = WARNING_SIGN, name = ''Suspected of causing cancer''\<rparr>),
    (''H360'', \<lparr>symbol = WARNING_SIGN, name = ''May damage fertility or the unborn child''\<rparr>),
    (''H361'', \<lparr>symbol = WARNING_SIGN, name = ''Suspected of damaging fertility or the unborn child''\<rparr>),
    (''H362'', \<lparr>symbol = WARNING_SIGN, name = ''May cause harm to breast-fed children''\<rparr>),
    (''H370'', \<lparr>symbol = WARNING_SIGN @ BRAIN, name = ''Causes damage to organs''\<rparr>),
    (''H371'', \<lparr>symbol = WARNING_SIGN @ BRAIN, name = ''May cause damage to organs''\<rparr>),
    (''H372'', \<lparr>symbol = WARNING_SIGN @ BRAIN, name = ''Causes damage to organs through prolonged or repeated exposure''\<rparr>),
    (''H373'', \<lparr>symbol = WARNING_SIGN @ BRAIN, name = ''May cause damage to organs through prolonged or repeated exposure''\<rparr>),
    (''H400'', \<lparr>symbol = FISH, name = ''Very toxic to aquatic life''\<rparr>),
    (''H401'', \<lparr>symbol = FISH, name = ''Toxic to aquatic life''\<rparr>),
    (''H402'', \<lparr>symbol = FISH, name = ''Harmful to aquatic life''\<rparr>),
    (''H410'', \<lparr>symbol = FISH @ SKULL, name = ''Very toxic to aquatic life with long lasting effects''\<rparr>),
    (''H411'', \<lparr>symbol = FISH @ SKULL, name = ''Toxic to aquatic life with long lasting effects''\<rparr>),
    (''H412'', \<lparr>symbol = FISH @ SKULL, name = ''Harmful to aquatic life with long lasting effects''\<rparr>),
    (''H413'', \<lparr>symbol = FISH, name = ''May cause long lasting harmful effects to aquatic life''\<rparr>)
  ]"

definition hazard_to_symbol :: "json \<Rightarrow> py_exception + hazard_info" where
  "hazard_to_symbol hazard_code' =
     dict_get hazard_to_symbol_hazard_map hazard_code'
       \<lparr>symbol = QUESTION_MARK, name = ''Unknown hazard''\<rparr>"

text \<open>The body of the loop of \<^verbatim>\<open>get_ppe_recommendations\<close> for one hazard code: four
  independent \<^verbatim>\<open>if\<close> statements, each appending to \<^verbatim>\<open>ppe_recommendations\<close>.\<close>

definition add_ppe_for_code :: "ppe list \<Rightarrow> string \<Rightarrow> ppe list" where
  "add_ppe_for_code ppe_recommendations code =
     (let r1 = (if code \<in> set [''H300'', ''H301'', ''H302'', ''H304'', ''H310'',
                                ''H311'', ''H312'', ''H330'', ''H331'', ''H332'']
                then ppe_recommendations @
                  [\<lparr>item = ''Respirator'',
                    description = ''Protection against inhalation of toxic substances''\<rparr>,
                   \<lparr>item = ''Gloves'', description = ''Chemical-resistant gloves''\<rparr>]
                else ppe_recommendations);
          r2 = (if code \<in> set [''H314'', ''H315'', ''H318'', ''H319'']
                then r1 @
                  [\<lparr>item = ''Face Shield'',
                    description = ''Additional face and eye protection''\<rparr>,
                   \<lparr>item = ''Chemical Apron'',
                    description = ''Protection against skin contact''\<rparr>]
                else r1);
          r3 = (if code \<in> set [''H220'', ''H221'', ''H222'', ''H223'', ''H224'',
                                ''H225'', ''H226'']
                then r2 @
                  [\<lparr>item = ''Flame-Resistant Clothing'',
                    description = ''Protection against fire hazards''\<rparr>]
                else r2);
          r4 = (if code \<in> set [''H340'', ''H341'', ''H350'', ''H351'']
                then r3 @
                  [\<lparr>item = ''Full Body Suit'',
                    description = ''Complete protection against carcinogens''\<rparr>]
                else r3)
      in r4)"

text \<open>The loop \<^verbatim>\<open>for hazard in hazards\<close>: entries that are not strings are skipped by
  the \<^verbatim>\<open>isinstance\<close> test; an exception raised in the body leaves the loop.\<close>

fun add_ppe_for_hazards :: "ppe list \<Rightarrow> json list \<Rightarrow> py_exception + ppe list" where
  "add_ppe_for_hazards ppe_recommendations [] = Inr ppe_recommendations"
| "add_ppe_for_hazards ppe_recommendations (hazard # hazards) =
     (case hazard of
        JStr s \<Rightarrow>
          (case hazard_code s of
             Inl e \<Rightarrow> Inl e
           | Inr code \<Rightarrow>
               add_ppe_for_hazards (add_ppe_for_code ppe_recommendations code) hazards)
      | _ \<Rightarrow> add_ppe_for_hazards ppe_recommendations hazards)"

text \<open>The value of the variable \<^verbatim>\<open>ppe_recommendations\<close> when the first loop has ended:
  the basic entry followed by everything the loop appended.\<close>

definition ppe_recommendations :: "json list \<Rightarrow> py_exception + ppe list" where
  "ppe_recommendations hazards =
     add_ppe_for_hazards
       [\<lparr>item = ''Safety Glasses'', description = ''Basic eye protection''\<rparr>] hazards"

text \<open>The second loop, under the comment \<^verbatim>\<open># Remove duplicates\<close>, with its two
  variables \<^verbatim>\<open>unique_ppe\<close> and \<^verbatim>\<open>seen\<close>.\<close>

fun remove_duplicates :: "ppe list \<Rightarrow> string set \<Rightarrow> ppe list \<Rightarrow> ppe list" where
  "remove_duplicates unique_ppe seen [] = unique_ppe"
| "remove_duplicates unique_ppe seen (rec # recs) =
     (if item rec \<notin> seen
      then remove_duplicates (unique_ppe @ [rec]) (insert (item rec) seen) recs
      else remove_duplicates unique_ppe seen recs)"

definition get_ppe_recommendations :: "json list \<Rightarrow> py_exception + ppe list" where
  "get_ppe_recommendations hazards =
     (case ppe_recommendations hazards of
        Inl e \<Rightarrow> Inl e
      | Inr recs \<Rightarrow> Inr (remove_duplicates [] {} recs))"


section \<open>\<^verbatim>\<open>chemical_safety_checker.py\<close>: the safety data sheet\<close>

text \<open>An f-string field \<^verbatim>\<open>{v}\<close>: a string is inserted as it is, any other value as
  its \<^verbatim>\<open>str()\<close> text. Python's builtin \<^verbatim>\<open>str\<close> on values that are not strings is a
  parameter \<open>str_of\<close> of the model.\<close>

definition format_value :: "(json \<Rightarrow> string) \<Rightarrow> json \<Rightarrow> string" where
  "format_value str_of v = (case v of JStr s \<Rightarrow> s | _ \<Rightarrow> str_of v)"

text \<open>The pieces of text that \<^verbatim>\<open>generate_sds\<close> joins: the f-string that opens the sheet,
  the f-string of one hazard, the constant text between the two lists, the f-string of
  one PPE recommendation, and the constant text that closes the sheet.\<close>

definition sds_head :: "string \<Rightarrow> string" where
  \<open>sds_head chemical_name =
     ''\<newline>    <div style="border: 1px solid #ddd; padding: 20px; border-radius: 5px; margin-bottom: 20px;">\<newline>        <h1>Simple Safety Data Sheet (SDS)</h1>\<newline>        <h2>1. Identification</h2>\<newline>        <p><strong>Product Name:</strong> '' @
     chemical_name @
     ''</p>\<newline>        \<newline>        <h2>2. Hazard Identification</h2>\<newline>        <p><strong>Hazard Classification:</strong></p>\<newline>        <ul>\<newline>    ''\<close>

definition sds_hazard_item :: "(json \<Rightarrow> string) \<Rightarrow> hazard_info \<Rightarrow> json \<Rightarrow> string" where
  "sds_hazard_item str_of hazard_info hazard =
     ''\<newline>            <li>'' @ symbol hazard_info @ '' '' @ name hazard_info @ '' ('' @
     format_value str_of hazard @ '')</li>\<newline>        ''"

definition sds_middle :: string where
  \<open>sds_middle =
     ''\<newline>        </ul>\<newline>        \<newline>        <h2>3. Composition/Information on Ingredients</h2>\<newline>        <p>Chemical information not available in this simplified version.</p>\<newline>        \<newline>        <h2>4. First-Aid Measures</h2>\<newline>        <p>If exposed:</p>\<newline>        <ul>\<newline>            <li>Inhalation: Move to fresh air immediately</li>\<newline>            <li>Skin contact: Wash with soap and water</li>\<newline>            <li>Eye contact: Flush with water for at least 15 minutes</li>\<newline>            <li>Ingestion: Seek medical attention immediately</li>\<newline>        </ul>\<newline>        \<newline>        <h2>5. Fire-Fighting Measures</h2>\<newline>        <p>Use appropriate fire extinguishing media for the surrounding fire.</p>\<newline>        \<newline>        <h2>6. Accidental Release Measures</h2>\<newline>        <p>Wear proper PPE, contain spill, and dispose according to regulations.</p>\<newline>        \<newline>        <h2>7. Handling and Storage</h2>\<newline>        <p>Store in a cool, dry, well-ventilated area away from incompatible materials.</p>\<newline>        \<newline>        <h2>8. Exposure Controls/Personal Protection</h2>\<newline>        <p><strong>Recommended PPE:</strong></p>\<newline>        <ul>\<newline>    ''\<close>

definition sds_ppe_item :: "ppe \<Rightarrow> string" where
  "sds_ppe_item ppe =
     ''\<newline>            <li>'' @ item ppe @ '': '' @ description ppe @ ''</li>\<newline>        ''"

definition sds_tail :: string where
  \<open>sds_tail =
     ''\<newline>        </ul>\<newline>        \<newline>        <h2>9-16. Other Sections</h2>\<newline>        <p>For complete SDS, consult official sources.</p>\<newline>    </div>\<newline>    ''\<close>

text \<open>The first loop of \<^verbatim>\<open>generate_sds\<close>. It calls \<^verbatim>\<open>hazard_to_symbol\<close> on the hazard
  entry itself, with no \<^verbatim>\<open>isinstance\<close> test and without extracting the code.\<close>

fun sds_hazards :: "(json \<Rightarrow> string) \<Rightarrow> string \<Rightarrow> json list \<Rightarrow> py_exception + string" where
  "sds_hazards str_of sds_content [] = Inr sds_content"
| "sds_hazards str_of sds_content (hazard # hazards) =
     (case hazard_to_symbol hazard of
        Inl e \<Rightarrow> Inl e
      | Inr hazard_info \<Rightarrow>
          sds_hazards str_of (sds_content @ sds_hazard_item str_of hazard_info hazard) hazards)"

text \<open>The second loop of \<^verbatim>\<open>generate_sds\<close>.\<close>

fun sds_ppe :: "string \<Rightarrow> ppe list \<Rightarrow> string" where
  "sds_ppe sds_content [] = sds_content"
| "sds_ppe sds_content (ppe # ppes) = sds_ppe (sds_content @ sds_ppe_item ppe) ppes"

definition generate_sds ::
  "(json \<Rightarrow> string) \<Rightarrow> string \<Rightarrow> json list \<Rightarrow> ppe list \<Rightarrow> py_exception + string" where
  "generate_sds str_of chemical_name hazards ppes =
     (case sds_hazards str_of (sds_head chemical_name) hazards of
        Inl e \<Rightarrow> Inl e
      | Inr sds_content \<Rightarrow> Inr (sds_ppe (sds_content @ sds_middle) ppes @ sds_tail))"


section \<open>What a page shows\<close>

text \<open>The Streamlit calls that write to the page, in the order in which they are made.\<close>

datatype element =
    Title string
  | Markdown string
  | Warning string




section \<open>\<^verbatim>\<open>hazard_checker.py\<close>\<close>

text \<open>The two module-level dicts of \<^verbatim>\<open>hazard_checker.py\<close> are global variables: the state
  of the module. \<^verbatim>\<open>hazard_checker_module\<close> is that state when the module has been loaded.\<close>

record hazard_checker_globals =
  hazard_map :: "(string \<times> hazard_info) list"
  handling_instructions :: "(string \<times> string) list"

definition hazard_checker_module :: hazard_checker_globals where
  "hazard_checker_module =
     \<lparr>hazard_map =
        [(''H200'', \<lparr>symbol = COLLISION, name = ''Explosive''\<rparr>),
         (''H220'', \<lparr>symbol = FIRE, name = ''Extremely flammable gas''\<rparr>),
         (''H300'', \<lparr>symbol = SKULL_CROSSBONES, name = ''Fatal if swallowed''\<rparr>),
         (''H314'', \<lparr>symbol = WARNING_SIGN, name = ''Causes severe skin burns and eye damage''\<rparr>),
         (''H400'', \<lparr>symbol = FISH, name = ''Very toxic to aquatic life''\<rparr>)],
      handling_instructions =
        [(''H200'', ''Handle with care. Avoid impact and friction.''),
         (''H220'', ''Keep away from heat, sparks, open flames, and hot surfaces.''),
         (''H300'', ''If swallowed, seek medical attention immediately.''),
         (''H314'', ''Wear protective gloves and eye protection.''),
         (''H400'', ''Avoid release to the environment. Collect spillage.'')]\<rparr>"

text \<open>\<^verbatim>\<open>main\<close> of \<^verbatim>\<open>hazard_checker.py\<close>, run on the text of the input box. It reads the
  globals and assigns to none of them. An empty input box is falsy: nothing below the
  introduction is shown. An entry of \<^verbatim>\<open>hazard_map\<close> is a dict of two keys, hence truthy.\<close>

definition hazard_checker_main ::
  "hazard_checker_globals \<Rightarrow> string \<Rightarrow> hazard_checker_globals \<times> element list" where
  "hazard_checker_main g code =
     (g,
      [Title ''Hazard Symbol Checker'',
       Markdown ''Enter the hazard code to see the corresponding symbol and handling instructions.''] @
      (if code \<noteq> [] then
         (case map_of (hazard_map g) code of
            Some hazard_info \<Rightarrow>
              [Markdown (''### Hazard Symbol: '' @ symbol hazard_info @ '' - '' @
                         name hazard_info),
               Markdown (''### Handling Instructions: '' @
                         (case map_of (handling_instructions g) code of
                            Some handling_instruction \<Rightarrow> handling_instruction
                          | None \<Rightarrow> ''No specific handling instructions available.''))]
          | None \<Rightarrow> [Warning ''Hazard code not found. Please enter a valid code.''])
       else []))"


section \<open>Sequences of calls\<close>

text \<open>A session is a sequence of calls of the functions of the two pages, each run in the
  state the previous one left. The functions of \<^verbatim>\<open>chemical_safety_checker.py\<close> read and
  write no global variable; \<^verbatim>\<open>hazard_to_symbol\<close> builds its table anew in every call.\<close>

datatype operation =
    CheckHazard string
  | HazardToSymbol json
  | GetPpeRecommendations "json list"
  | GenerateSds string "json list" "ppe list"

datatype outcome =
    Page "element list"
  | SymbolResult "py_exception + hazard_info"
  | PpeResult "py_exception + ppe list"
  | SdsResult "py_exception + string"

fun perform ::
  "(json \<Rightarrow> string) \<Rightarrow> hazard_checker_globals \<Rightarrow> operation \<Rightarrow> hazard_checker_globals \<times> outcome" where
  "perform str_of g (CheckHazard code) =
     (case hazard_checker_main g code of (g', page) \<Rightarrow> (g', Page page))"
| "perform str_of g (HazardToSymbol h) = (g, SymbolResult (hazard_to_symbol h))"
| "perform str_of g (GetPpeRecommendations hazards) =
     (g, PpeResult (get_ppe_recommendations hazards))"
| "perform str_of g (GenerateSds chemical_name hazards ppes) =
     (g, SdsResult (generate_sds str_of chemical_name hazards ppes))"

fun run ::
  "(json \<Rightarrow> string) \<Rightarrow> hazard_checker_globals \<Rightarrow> operation list \<Rightarrow>
     hazard_checker_globals \<times> outcome list" where
  "run str_of g [] = (g, [])"
| "run str_of g (op # ops) =
     (case perform str_of g op of
        (g', out) \<Rightarrow> (case run str_of g' ops of (g'', outs) \<Rightarrow> (g'', out # outs)))"


section \<open>\<^verbatim>\<open>chemical_safety_checker.py\<close>: the remote lookup\<close>

text \<open>What the code reads of the object that \<^verbatim>\<open>requests.get\<close> returns: the status code,
  and the result of \<^verbatim>\<open>response.json()\<close>, which raises when the body is not JSON.\<close>

record response =
  status_code :: int
  json :: "py_exception + json"

text \<open>\<^verbatim>\<open>v[key]\<close> with a string key. A decoded JSON object is a dict with string keys;
  every other value raises \<^verbatim>\<open>TypeError\<close> (a list or a string wants an integer index, the
  rest cannot be subscripted).\<close>

definition subscript :: "json \<Rightarrow> string \<Rightarrow> py_exception + json" where
  "subscript v key =
     (case v of
        JObj d \<Rightarrow> (case map_of d key of None \<Rightarrow> Inl KeyError | Some x \<Rightarrow> Inr x)
      | _ \<Rightarrow> Inl TypeError)"

text \<open>The first character of a non-empty string: its first byte and the continuation
  bytes (\<open>0x80\<close> to \<open>0xBF\<close>) that follow it.\<close>

definition first_character :: "string \<Rightarrow> string" where
  "first_character s =
     (case s of
        [] \<Rightarrow> []
      | c # cs \<Rightarrow> c # takeWhile (\<lambda>b. 128 \<le> (of_char b :: nat) \<and> (of_char b :: nat) < 192) cs)"

text \<open>\<^verbatim>\<open>v[0]\<close>. A dict decoded from JSON has no integer key.\<close>

definition subscript0 :: "json \<Rightarrow> py_exception + json" where
  "subscript0 v =
     (case v of
        JArr xs \<Rightarrow> index0 xs
      | JStr s \<Rightarrow> (if s = [] then Inl IndexError else Inr (JStr (first_character s)))
      | JObj _ \<Rightarrow> Inl KeyError
      | _ \<Rightarrow> Inl TypeError)"

text \<open>The dict that \<^verbatim>\<open>get_pubchem_data\<close> returns: \<^verbatim>\<open>{'success': True, 'data': d}\<close> or
  \<^verbatim>\<open>{'success': False, 'error': text}\<close>, where the text is one of the two fixed messages
  or \<^verbatim>\<open>str(e)\<close> of a caught exception.\<close>

datatype error_text =
    Message string
  | StrOfException py_exception

datatype pubchem_result =
    Success json
  | Failure error_text

fun success :: "pubchem_result \<Rightarrow> bool" where
  "success (Success _) = True"
| "success (Failure _) = False"

definition base_url :: string where
  "base_url = ''https://pubchem.ncbi.nlm.nih.gov/rest/pug''"

definition cid_url :: "string \<Rightarrow> string" where
  "cid_url chemical_name = base_url @ ''/compound/name/'' @ chemical_name @ ''/cids/JSON''"

definition compound_url :: "(json \<Rightarrow> string) \<Rightarrow> json \<Rightarrow> string" where
  "compound_url str_of cid = base_url @ ''/compound/cid/'' @ format_value str_of cid @ ''/JSON''"

text \<open>\<^verbatim>\<open>response.json()['IdentifierList']['CID'][0]\<close>.\<close>

definition first_cid :: "response \<Rightarrow> py_exception + json" where
  "first_cid response =
     (case json response of
        Inl e \<Rightarrow> Inl e
      | Inr body \<Rightarrow>
          (case subscript body ''IdentifierList'' of
             Inl e \<Rightarrow> Inl e
           | Inr identifier_list \<Rightarrow>
               (case subscript identifier_list ''CID'' of
                  Inl e \<Rightarrow> Inl e
                | Inr cids \<Rightarrow> subscript0 cids)))"

text \<open>The body of the \<^verbatim>\<open>try\<close> statement. \<^verbatim>\<open>requests.get\<close> is a parameter: for a URL it
  raises or returns a response. \<open>Inl\<close> is an exception that leaves the body.\<close>

definition get_pubchem_data_try ::
  "(string \<Rightarrow> py_exception + response) \<Rightarrow> (json \<Rightarrow> string) \<Rightarrow> string \<Rightarrow>
     py_exception + pubchem_result" where
  "get_pubchem_data_try requests_get str_of chemical_name =
     (case requests_get (cid_url chemical_name) of
        Inl e \<Rightarrow> Inl e
      | Inr response \<Rightarrow>
          if status_code response = 200 then
            (case first_cid response of
               Inl e \<Rightarrow> Inl e
             | Inr cid \<Rightarrow>
                 (case requests_get (compound_url str_of cid) of
                    Inl e \<Rightarrow> Inl e
                  | Inr compound_response \<Rightarrow>
                      if status_code compound_response = 200 then
                        (case json compound_response of
                           Inl e \<Rightarrow> Inl e
                         | Inr compound_data \<Rightarrow> Inr (Success compound_data))
                      else Inr (Failure (Message ''Failed to fetch compound details''))))
          else Inr (Failure (Message ''Chemical not found or error in PubChem API'')))"

text \<open>The whole function: \<^verbatim>\<open>except Exception as e\<close> turns every exception of the body
  into a result.\<close>

definition get_pubchem_data ::
  "(string \<Rightarrow> py_exception + response) \<Rightarrow> (json \<Rightarrow> string) \<Rightarrow> string \<Rightarrow> pubchem_result" where
  "get_pubchem_data requests_get str_of chemical_name =
     (case get_pubchem_data_try requests_get str_of chemical_name of
        Inl e \<Rightarrow> Failure (StrOfException e)
      | Inr result \<Rightarrow> result)"


section \<open>\<^verbatim>\<open>chemical_safety_checker.py\<close>: the objects that the functions create\<close>

text \<open>The functions of \<^verbatim>\<open>chemical_safety_checker.py\<close> create objects and modify them:
  \<^verbatim>\<open>get_ppe_recommendations\<close> appends to two lists and adds to a set, \<^verbatim>\<open>hazard_to_symbol\<close>
  builds a dict. In this section these objects are cells of a heap: for every address a
  list of PPE entries, a set of strings and a dict, and the next free address. The
  objects that exist are those below the next free address.\<close>

record heap =
  list_cells :: "nat \<Rightarrow> ppe list"
  set_cells :: "nat \<Rightarrow> string set"
  dict_cells :: "nat \<Rightarrow> (string \<times> hazard_info) list"
  next_free :: nat

text \<open>\<^verbatim>\<open>[]\<close>, \<^verbatim>\<open>set()\<close> and a dict literal create an object at the next free address and
  return that address.\<close>

definition new_list :: "heap \<Rightarrow> heap \<times> nat" where
  "new_list h =
     (h\<lparr>list_cells := (list_cells h)(next_free h := []), next_free := Suc (next_free h)\<rparr>,
      next_free h)"

definition new_set :: "heap \<Rightarrow> heap \<times> nat" where
  "new_set h =
     (h\<lparr>set_cells := (set_cells h)(next_free h := {}), next_free := Suc (next_free h)\<rparr>,
      next_free h)"

definition new_dict :: "heap \<Rightarrow> (string \<times> hazard_info) list \<Rightarrow> heap \<times> nat" where
  "new_dict h entries =
     (h\<lparr>dict_cells := (dict_cells h)(next_free h := entries), next_free := Suc (next_free h)\<rparr>,
      next_free h)"

text \<open>\<^verbatim>\<open>xs.append(x)\<close> and \<^verbatim>\<open>s.add(x)\<close> modify the object they are applied to.\<close>

definition list_append :: "heap \<Rightarrow> nat \<Rightarrow> ppe \<Rightarrow> heap" where
  "list_append h a x = h\<lparr>list_cells := (list_cells h)(a := list_cells h a @ [x])\<rparr>"

definition set_add :: "heap \<Rightarrow> nat \<Rightarrow> string \<Rightarrow> heap" where
  "set_add h a x = h\<lparr>set_cells := (set_cells h)(a := insert x (set_cells h a))\<rparr>"

text \<open>The functions above once more, statement by statement, with the heap passed
  through every statement and returned with the result. Arguments are only read and
  are passed as values; the entries of a PPE list and of the table are not modified
  once they are built and are values as well.

  \<^verbatim>\<open>hazard_to_symbol\<close>: the dict literal creates the table, \<^verbatim>\<open>get\<close> reads it.\<close>

definition hazard_to_symbol_heap :: "heap \<Rightarrow> json \<Rightarrow> heap \<times> (py_exception + hazard_info)" where
  "hazard_to_symbol_heap h hazard_code' =
     (case new_dict h hazard_to_symbol_hazard_map of
        (h1, hazard_map') \<Rightarrow>
          (h1, dict_get (dict_cells h1 hazard_map') hazard_code'
                 \<lparr>symbol = QUESTION_MARK, name = ''Unknown hazard''\<rparr>))"

text \<open>The body of the first loop of \<^verbatim>\<open>get_ppe_recommendations\<close>: the appends go to the
  list object \<^verbatim>\<open>ppe_recommendations\<close>.\<close>

definition add_ppe_for_code_heap :: "heap \<Rightarrow> nat \<Rightarrow> string \<Rightarrow> heap" where
  "add_ppe_for_code_heap h ppe_recommendations' code =
     (let h1 = (if code \<in> set [''H300'', ''H301'', ''H302'', ''H304'', ''H310'',
                                ''H311'', ''H312'', ''H330'', ''H331'', ''H332'']
                then list_append
                       (list_append h ppe_recommendations'
                          \<lparr>item = ''Respirator'',
                           description = ''Protection against inhalation of toxic substances''\<rparr>)
                       ppe_recommendations'
                       \<lparr>item = ''Gloves'', description = ''Chemical-resistant gloves''\<rparr>
                else h);
          h2 = (if code \<in> set [''H314'', ''H315'', ''H318'', ''H319'']
                then list_append
                       (list_append h1 ppe_recommendations'
                          \<lparr>item = ''Face Shield'',
                           description = ''Additional face and eye protection''\<rparr>)
                       ppe_recommendations'
                       \<lparr>item = ''Chemical Apron'',
                        description = ''Protection against skin contact''\<rparr>
                else h1);
          h3 = (if code \<in> set [''H220'', ''H221'', ''H222'', ''H223'', ''H224'',
                                ''H225'', ''H226'']
                then list_append h2 ppe_recommendations'
                       \<lparr>item = ''Flame-Resistant Clothing'',
                        description = ''Protection against fire hazards''\<rparr>
                else h2);
          h4 = (if code \<in> set [''H340'', ''H341'', ''H350'', ''H351'']
                then list_append h3 ppe_recommendations'
                       \<lparr>item = ''Full Body Suit'',
                        description = ''Complete protection against carcinogens''\<rparr>
                else h3)
      in h4)"

text \<open>The first loop; an exception leaves it with the heap as it is then.\<close>

fun add_ppe_for_hazards_heap :: "heap \<Rightarrow> nat \<Rightarrow> json list \<Rightarrow> heap \<times> py_exception option" where
  "add_ppe_for_hazards_heap h ppe_recommendations' [] = (h, None)"
| "add_ppe_for_hazards_heap h ppe_recommendations' (hazard # hazards) =
     (case hazard of
        JStr s \<Rightarrow>
          (case hazard_code s of
             Inl e \<Rightarrow> (h, Some e)
           | Inr code \<Rightarrow>
               add_ppe_for_hazards_heap (add_ppe_for_code_heap h ppe_recommendations' code)
                 ppe_recommendations' hazards)
      | _ \<Rightarrow> add_ppe_for_hazards_heap h ppe_recommendations' hazards)"

text \<open>The second loop. It runs over the elements of the list \<^verbatim>\<open>ppe_recommendations\<close>;
  its body modifies the two other objects, the set \<^verbatim>\<open>seen\<close> and the list
  \<^verbatim>\<open>unique_ppe\<close>.\<close>

fun remove_duplicates_heap :: "heap \<Rightarrow> nat \<Rightarrow> nat \<Rightarrow> ppe list \<Rightarrow> heap" where
  "remove_duplicates_heap h unique_ppe seen [] = h"
| "remove_duplicates_heap h unique_ppe seen (rec # recs) =
     (if item rec \<notin> set_cells h seen
      then remove_duplicates_heap
             (list_append (set_add h seen (item rec)) unique_ppe rec) unique_ppe seen recs
      else remove_duplicates_heap h unique_ppe seen recs)"

text \<open>\<^verbatim>\<open>get_ppe_recommendations\<close>: it creates the list \<^verbatim>\<open>ppe_recommendations\<close>, fills it,
  creates \<^verbatim>\<open>unique_ppe\<close> and \<^verbatim>\<open>seen\<close>, and returns the address of \<^verbatim>\<open>unique_ppe\<close>.\<close>

definition get_ppe_recommendations_heap :: "heap \<Rightarrow> json list \<Rightarrow> heap \<times> (py_exception + nat)" where
  "get_ppe_recommendations_heap h hazards =
     (case new_list h of
        (h1, ppe_recommendations') \<Rightarrow>
          (case add_ppe_for_hazards_heap
                  (list_append h1 ppe_recommendations'
                     \<lparr>item = ''Safety Glasses'', description = ''Basic eye protection''\<rparr>)
                  ppe_recommendations' hazards of
             (h2, Some e) \<Rightarrow> (h2, Inl e)
           | (h2, None) \<Rightarrow>
               (case new_list h2 of
                  (h3, unique_ppe) \<Rightarrow>
                    (case new_set h3 of
                       (h4, seen) \<Rightarrow>
                         (remove_duplicates_heap h4 unique_ppe seen
                            (list_cells h4 ppe_recommendations'),
                          Inr unique_ppe)))))"

text \<open>\<^verbatim>\<open>generate_sds\<close>: \<^verbatim>\<open>sds_content\<close> is a string, a value; the heap changes in the calls
  of \<^verbatim>\<open>hazard_to_symbol\<close>.\<close>

fun sds_hazards_heap ::
  "(json \<Rightarrow> string) \<Rightarrow> heap \<Rightarrow> string \<Rightarrow> json list \<Rightarrow> heap \<times> (py_exception + string)" where
  "sds_hazards_heap str_of h sds_content [] = (h, Inr sds_content)"
| "sds_hazards_heap str_of h sds_content (hazard # hazards) =
     (case hazard_to_symbol_heap h hazard of
        (h1, Inl e) \<Rightarrow> (h1, Inl e)
      | (h1, Inr hazard_info) \<Rightarrow>
          sds_hazards_heap str_of h1 (sds_content @ sds_hazard_item str_of hazard_info hazard)
            hazards)"

definition generate_sds_heap ::
  "(json \<Rightarrow> string) \<Rightarrow> heap \<Rightarrow> string \<Rightarrow> json list \<Rightarrow> ppe list \<Rightarrow>
     heap \<times> (py_exception + string)" where
  "generate_sds_heap str_of h chemical_name hazards ppes =
     (case sds_hazards_heap str_of h (sds_head chemical_name) hazards of
        (h1, Inl e) \<Rightarrow> (h1, Inl e)
      | (h1, Inr sds_content) \<Rightarrow>
          (h1, Inr (sds_ppe (sds_content @ sds_middle) ppes @ sds_tail)))"

text \<open>The list that a call of \<^verbatim>\<open>get_ppe_recommendations\<close> returns: the content, in the
  heap after the call, of the object whose address it returns.\<close>

definition returned_list :: "heap \<times> (py_exception + nat) \<Rightarrow> py_exception + ppe list" where
  "returned_list r =
     (case r of (h, Inl e) \<Rightarrow> Inl e | (h, Inr unique_ppe) \<Rightarrow> Inr (list_cells h unique_ppe))"

text \<open>Every object of the heap \<open>h\<close> is in the heap \<open>h'\<close> what it is in \<open>h\<close>.\<close>

definition old_objects_kept :: "heap \<Rightarrow> heap \<Rightarrow> bool" where
  "old_objects_kept h h' =
     (next_free h \<le> next_free h' \<and>
      (\<forall>a\<in>{..<next_free h}.
         list_cells h' a = list_cells h a \<and>
         set_cells h' a = set_cells h a \<and>
         dict_cells h' a = dict_cells h a))"

text \<open>The heap in which no object has been created.\<close>

definition empty_heap :: heap where
  "empty_heap = \<lparr>list_cells = (\<lambda>a. []), set_cells = (\<lambda>a. {}), dict_cells = (\<lambda>a. []), next_free = 0\<rparr>"



section \<open>Notions used in the statements\<close>

text \<open>The set of hazard codes extracted from a hazard list: the codes of its string
  entries, as the loops of \<^verbatim>\<open>get_ppe_recommendations\<close> and \<^verbatim>\<open>main\<close> compute them.\<close>

fun hazard_codes :: "json list \<Rightarrow> string set" where
  "hazard_codes [] = {}"
| "hazard_codes (hazard # hazards) =
     (case hazard of
        JStr s \<Rightarrow>
          (case hazard_code s of
             Inl e \<Rightarrow> hazard_codes hazards
           | Inr code \<Rightarrow> insert code (hazard_codes hazards))
      | _ \<Rightarrow> hazard_codes hazards)"

text \<open>What one entry of a hazard list adds to \<^verbatim>\<open>ppe_recommendations\<close>: for a string, the
  entries of its code; for any other value, nothing.\<close>

fun ppe_of_entry :: "json \<Rightarrow> ppe list" where
  "ppe_of_entry (JStr s) = add_ppe_for_code [] (takeWhile (\<lambda>c. c \<noteq> CHR '':'') s)"
| "ppe_of_entry _ = []"

text \<open>Whether a value can be a key of a dict.\<close>

fun hashable :: "json \<Rightarrow> bool" where
  "hashable (JArr _) = False"
| "hashable (JObj _) = False"
| "hashable _ = True"


section \<open>Two remote services for the examples\<close>

text \<open>Python's \<^verbatim>\<open>str\<close> on the one value the examples format, the integer 962.\<close>

definition str_of_cid :: "json \<Rightarrow> string" where
  "str_of_cid v = (if v = JInt 962 then ''962'' else ''None'')"

text \<open>A service that knows water: the name lookup returns the compound id 962 and the
  compound fetch returns a compound record; every other URL returns status 404 and a
  body that is not JSON.\<close>

definition pubchem_water :: "string \<Rightarrow> py_exception + response" where
  "pubchem_water url =
     (if url = cid_url ''water''
      then Inr \<lparr>status_code = 200,
                json = Inr (JObj [(''IdentifierList'', JObj [(''CID'', JArr [JInt 962])])])\<rparr>
      else if url = base_url @ ''/compound/cid/962/JSON''
      then Inr \<lparr>status_code = 200, json = Inr (JObj [(''PC_Compounds'', JArr [])])\<rparr>
      else Inr \<lparr>status_code = 404, json = Inl JSONDecodeError\<rparr>)"

text \<open>A service that answers every request with status 200, the name lookup with the
  compound id 962 and every other request with a body that is not JSON.\<close>

definition pubchem_not_json :: "string \<Rightarrow> py_exception + response" where
  "pubchem_not_json url =
     (if url = cid_url ''water''
      then Inr \<lparr>status_code = 200,
                json = Inr (JObj [(''IdentifierList'', JObj [(''CID'', JArr [JInt 962])])])\<rparr>
      else Inr \<lparr>status_code = 200, json = Inl JSONDecodeError\<rparr>)"


section \<open>Hazard codes\<close>

lemma hd_str_split: "\<exists>ws. str_split sep s = takeWhile (\<lambda>c. c \<noteq> sep) s # ws"
  by (induction s) (auto split: list.splits)

lemma takeWhile_absent: "sep \<notin> set s \<Longrightarrow> takeWhile (\<lambda>c. c \<noteq> sep) s = s"
  by (induction s) auto

lemma hazard_code_eq:
  "hazard_code h = Inr (takeWhile (\<lambda>c. c \<noteq> CHR '':'') h)"
proof (cases "CHR '':'' \<in> set h")
  case True
  obtain ws where "str_split (CHR '':'') h = takeWhile (\<lambda>c. c \<noteq> CHR '':'') h # ws"
    using hd_str_split by blast
  with True show ?thesis by (simp add: hazard_code_def index0_def)
next
  case False
  then show ?thesis by (simp add: hazard_code_def takeWhile_absent)
qed


section \<open>The PPE recommendations before deduplication\<close>

lemma add_ppe_for_code_append:
  "add_ppe_for_code acc code = acc @ add_ppe_for_code [] code"
  by (simp add: add_ppe_for_code_def Let_def)

lemma add_ppe_for_hazards_eq:
  "add_ppe_for_hazards acc hs = Inr (acc @ concat (map ppe_of_entry hs))"
proof (induction hs arbitrary: acc)
  case Nil
  then show ?case by simp
next
  case (Cons h hs)
  show ?case
  proof (cases h)
    case (JStr s)
    then show ?thesis using Cons.IH add_ppe_for_code_append[of acc]
      by (simp add: hazard_code_eq)
  qed (simp_all add: Cons.IH)
qed

lemma hazard_codes_eq:
  "hazard_codes hs = {takeWhile (\<lambda>c. c \<noteq> CHR '':'') s | s. JStr s \<in> set hs}"
  by (induction hs) (auto simp: hazard_code_eq split: json.splits)

lemma items_of_entries:
  "item ` set (concat (map ppe_of_entry hs)) = (\<Union>c\<in>hazard_codes hs. item ` set (add_ppe_for_code [] c))"
proof (induction hs)
  case Nil
  then show ?case by simp
next
  case (Cons h hs)
  then show ?case
    by (cases h) (simp_all add: hazard_code_eq image_Un)
qed


section \<open>Removing duplicates\<close>

lemma remove_duplicates_append:
  "remove_duplicates u seen xs = u @ remove_duplicates [] seen xs"
proof (induction xs arbitrary: u seen)
  case Nil
  then show ?case by simp
next
  case (Cons x xs)
  show ?case
    using Cons.IH[of "u @ [x]" "insert (item x) seen"] Cons.IH[of "[x]" "insert (item x) seen"] Cons.IH[of u seen]
    by simp
qed

lemma remove_duplicates_Cons:
  "remove_duplicates [] seen (x # xs) =
     (if item x \<notin> seen then x # remove_duplicates [] (insert (item x) seen) xs
      else remove_duplicates [] seen xs)"
  using remove_duplicates_append[of "[x]" "insert (item x) seen" xs] by simp

lemma remove_duplicates_items:
  "item ` set (remove_duplicates [] seen xs) = item ` set xs - seen"
  by (induction xs arbitrary: seen) (auto simp: remove_duplicates_Cons simp del: remove_duplicates.simps(2))

lemma remove_duplicates_distinct:
  "distinct (map item (remove_duplicates [] seen xs))"
proof (induction xs arbitrary: seen)
  case Nil
  then show ?case by simp
next
  case (Cons x xs)
  have "item x \<notin> item ` set (remove_duplicates [] (insert (item x) seen) xs)"
    by (simp add: remove_duplicates_items)
  with Cons.IH show ?case by (simp add: remove_duplicates_Cons del: remove_duplicates.simps(2))
qed

lemma remove_duplicates_first:
  "r \<in> set (remove_duplicates [] seen xs) \<Longrightarrow> find (\<lambda>x. item x = item r) xs = Some r"
proof (induction xs arbitrary: seen)
  case Nil
  then show ?case by simp
next
  case (Cons x xs)
  show ?case
  proof (cases "item x \<in> seen")
    case True
    with Cons.prems have in_rest: "r \<in> set (remove_duplicates [] seen xs)"
      by (simp add: remove_duplicates_Cons del: remove_duplicates.simps(2))
    then have "item r \<in> item ` set xs - seen"
      using remove_duplicates_items[of seen xs] by blast
    with True have "item x \<noteq> item r" by auto
    with Cons.IH[OF in_rest] show ?thesis by simp
  next
    case False
    with Cons.prems have "r = x \<or> r \<in> set (remove_duplicates [] (insert (item x) seen) xs)"
      by (simp add: remove_duplicates_Cons del: remove_duplicates.simps(2))
    then show ?thesis
    proof
      assume "r = x" then show ?thesis by simp
    next
      assume in_rest: "r \<in> set (remove_duplicates [] (insert (item x) seen) xs)"
      then have "item r \<in> item ` set xs - insert (item x) seen"
        using remove_duplicates_items[of "insert (item x) seen" xs] by blast
      then have "item x \<noteq> item r" by auto
      with Cons.IH[OF in_rest] show ?thesis by simp
    qed
  qed
qed

lemma filter_upt_Suc:
  "filter P [0..<Suc n] = (if P 0 then [0] else []) @ map Suc (filter (\<lambda>i. P (Suc i)) [0..<n])"
proof -
  have "[0..<Suc n] = 0 # map Suc [0..<n]"
    by (simp add: upt_conv_Cons map_Suc_upt del: upt_Suc)
  then show ?thesis
    by (simp add: filter_map comp_def del: upt_Suc)
qed

lemma all_less_Suc: "(\<forall>j<Suc i. P j) = (P 0 \<and> (\<forall>j<i. P (Suc j)))"
  by (auto simp: less_Suc_eq_0_disj)

lemma remove_duplicates_positions:
  "remove_duplicates [] seen xs =
     map (nth xs) (filter (\<lambda>i. item (xs ! i) \<notin> seen \<and> (\<forall>j<i. item (xs ! j) \<noteq> item (xs ! i))) [0..<length xs])"
proof (induction xs arbitrary: seen)
  case Nil
  then show ?case by simp
next
  case (Cons x xs)
  let ?first = "\<lambda>seen ys i. item (ys ! i) \<notin> seen \<and> (\<forall>j<i. item (ys ! j) \<noteq> item (ys ! i))"
  have shift: "map (nth (x # xs)) (map Suc is) = map (nth xs) is" for "is"
    by simp
  have split: "filter (?first seen (x # xs)) [0..<length (x # xs)] =
      (if item x \<notin> seen then [0] else []) @
      map Suc (filter (\<lambda>i. item (xs ! i) \<notin> seen \<and> item x \<noteq> item (xs ! i) \<and>
                 (\<forall>j<i. item (xs ! j) \<noteq> item (xs ! i))) [0..<length xs])"
    unfolding length_Cons filter_upt_Suc by (simp add: all_less_Suc)
  show ?case
  proof (cases "item x \<in> seen")
    case True
    have same: "(item (xs ! i) \<notin> seen \<and> item x \<noteq> item (xs ! i) \<and> (\<forall>j<i. item (xs ! j) \<noteq> item (xs ! i)))
        = ?first seen xs i" for i
      using True by auto
    have "remove_duplicates [] seen (x # xs) = remove_duplicates [] seen xs"
      using True by (simp add: remove_duplicates_Cons del: remove_duplicates.simps(2))
    also have "\<dots> = map (nth xs) (filter (?first seen xs) [0..<length xs])"
      by (rule Cons.IH)
    also have "\<dots> = map (nth (x # xs)) (filter (?first seen (x # xs)) [0..<length (x # xs)])"
      unfolding split same using True by simp
    finally show ?thesis .
  next
    case False
    have same: "(item (xs ! i) \<notin> seen \<and> item x \<noteq> item (xs ! i) \<and> (\<forall>j<i. item (xs ! j) \<noteq> item (xs ! i)))
        = ?first (insert (item x) seen) xs i" for i
      by auto
    have "remove_duplicates [] seen (x # xs) = x # remove_duplicates [] (insert (item x) seen) xs"
      using False by (simp add: remove_duplicates_Cons del: remove_duplicates.simps(2))
    also have "\<dots> = x # map (nth xs) (filter (?first (insert (item x) seen) xs) [0..<length xs])"
      by (simp only: Cons.IH)
    also have "\<dots> = map (nth (x # xs)) (filter (?first seen (x # xs)) [0..<length (x # xs)])"
      unfolding split same using False by simp
    finally show ?thesis .
  qed
qed


section \<open>Hazard codes and PPE recommendations: the results\<close>

lemma get_ppe_recommendations_eq:
  "get_ppe_recommendations hazards =
     Inr (\<lparr>item = ''Safety Glasses'', description = ''Basic eye protection''\<rparr> #
          remove_duplicates [] {''Safety Glasses''} (concat (map ppe_of_entry hazards)))"
  by (simp add: get_ppe_recommendations_def ppe_recommendations_def add_ppe_for_hazards_eq
      remove_duplicates_Cons del: remove_duplicates.simps(2))

lemma hazard_to_symbol_str_total: "\<exists>info. hazard_to_symbol (JStr code) = Inr info"
  by (simp add: hazard_to_symbol_def dict_get_def)



text \<open>
  Claim C9. For every hazard list, the empty one and those with entries that are not
  strings included, \<open>get_ppe_recommendations\<close> returns a list, and its first element is
  the Safety Glasses recommendation.
\<close>

theorem get_ppe_recommendations_starts_with_safety_glasses:
  "\<exists>rest. get_ppe_recommendations hazards =
     Inr (\<lparr>item = ''Safety Glasses'', description = ''Basic eye protection''\<rparr> # rest)"
  by (simp add: get_ppe_recommendations_eq)

text \<open>The theorem at a concrete input.\<close>

theorem get_ppe_recommendations_starts_with_safety_glasses_witness:
  "(\<exists>rest. get_ppe_recommendations [] =
     Inr (\<lparr>item = ''Safety Glasses'', description = ''Basic eye protection''\<rparr> # rest)) \<and>
   (\<exists>rest. get_ppe_recommendations [JInt 7, JArr [JInt 1], JNull, JStr ''H314''] =
     Inr (\<lparr>item = ''Safety Glasses'', description = ''Basic eye protection''\<rparr> # rest))"
  using get_ppe_recommendations_starts_with_safety_glasses [of "[]"]
    get_ppe_recommendations_starts_with_safety_glasses [of "[JInt 7, JArr [JInt 1], JNull, JStr ''H314'']"]
  by simp

text \<open>
  Claim C1. \<open>get_ppe_recommendations\<close> returns a deduplicated list. With \<open>recs\<close> the list
  collected before the duplicates are removed: no two entries of the result have the
  same item; every entry of the result is the first entry of \<open>recs\<close> with its item, so it
  keeps that entry's description; and the result is \<open>recs\<close> restricted to the positions
  whose item occurs at no earlier position, in the order of \<open>recs\<close>.
\<close>

theorem get_ppe_recommendations_deduplicated:
  "\<exists>recs unique_ppe.
     ppe_recommendations hazards = Inr recs \<and>
     get_ppe_recommendations hazards = Inr unique_ppe \<and>
     distinct (map item unique_ppe) \<and>
     (\<forall>r \<in> set unique_ppe. find (\<lambda>x. item x = item r) recs = Some r) \<and>
     unique_ppe =
       map (nth recs)
         (filter (\<lambda>i. \<forall>j<i. item (recs ! j) \<noteq> item (recs ! i)) [0..<length recs])"
proof -
  obtain recs where recs: "ppe_recommendations hazards = Inr recs"
    by (simp add: ppe_recommendations_def add_ppe_for_hazards_eq)
  have result: "get_ppe_recommendations hazards = Inr (remove_duplicates [] {} recs)"
    by (simp add: get_ppe_recommendations_def recs)
  have "distinct (map item (remove_duplicates [] {} recs))"
    by (rule remove_duplicates_distinct)
  moreover have "\<forall>r \<in> set (remove_duplicates [] {} recs). find (\<lambda>x. item x = item r) recs = Some r"
    using remove_duplicates_first by blast
  moreover have "remove_duplicates [] {} recs =
       map (nth recs)
         (filter (\<lambda>i. \<forall>j<i. item (recs ! j) \<noteq> item (recs ! i)) [0..<length recs])"
    using remove_duplicates_positions [of "{}" recs] by simp
  ultimately show ?thesis using recs result by blast
qed

text \<open>The theorem at a concrete input.\<close>

theorem get_ppe_recommendations_deduplicated_witness:
  "ppe_recommendations [JStr ''H300: Fatal if swallowed'', JStr ''H301'', JInt 5] =
     Inr [\<lparr>item = ''Safety Glasses'', description = ''Basic eye protection''\<rparr>,
          \<lparr>item = ''Respirator'', description = ''Protection against inhalation of toxic substances''\<rparr>,
          \<lparr>item = ''Gloves'', description = ''Chemical-resistant gloves''\<rparr>,
          \<lparr>item = ''Respirator'', description = ''Protection against inhalation of toxic substances''\<rparr>,
          \<lparr>item = ''Gloves'', description = ''Chemical-resistant gloves''\<rparr>] \<and>
   get_ppe_recommendations [JStr ''H300: Fatal if swallowed'', JStr ''H301'', JInt 5] =
     Inr [\<lparr>item = ''Safety Glasses'', description = ''Basic eye protection''\<rparr>,
          \<lparr>item = ''Respirator'', description = ''Protection against inhalation of toxic substances''\<rparr>,
          \<lparr>item = ''Gloves'', description = ''Chemical-resistant gloves''\<rparr>]"
proof -
  let ?hazards = "[JStr ''H300: Fatal if swallowed'', JStr ''H301'', JInt 5]"
  have recs: "ppe_recommendations ?hazards =
     Inr [\<lparr>item = ''Safety Glasses'', description = ''Basic eye protection''\<rparr>,
          \<lparr>item = ''Respirator'', description = ''Protection against inhalation of toxic substances''\<rparr>,
          \<lparr>item = ''Gloves'', description = ''Chemical-resistant gloves''\<rparr>,
          \<lparr>item = ''Respirator'', description = ''Protection against inhalation of toxic substances''\<rparr>,
          \<lparr>item = ''Gloves'', description = ''Chemical-resistant gloves''\<rparr>]"
    by (simp add: ppe_recommendations_def hazard_code_def index0_def add_ppe_for_code_def)
  obtain rs us where rs: "ppe_recommendations ?hazards = Inr rs"
    and us: "get_ppe_recommendations ?hazards = Inr us"
    and positions: "us = map (nth rs)
         (filter (\<lambda>i. \<forall>j<i. item (rs ! j) \<noteq> item (rs ! i)) [0..<length rs])"
    using get_ppe_recommendations_deduplicated [of ?hazards] by blast
  have five: "[0..<Suc (Suc (Suc (Suc (Suc 0))))] = [0, Suc 0, Suc (Suc 0), Suc (Suc (Suc 0)), Suc (Suc (Suc (Suc 0)))]"
    by (simp add: upt_rec)
  from rs recs have "rs = [\<lparr>item = ''Safety Glasses'', description = ''Basic eye protection''\<rparr>,
          \<lparr>item = ''Respirator'', description = ''Protection against inhalation of toxic substances''\<rparr>,
          \<lparr>item = ''Gloves'', description = ''Chemical-resistant gloves''\<rparr>,
          \<lparr>item = ''Respirator'', description = ''Protection against inhalation of toxic substances''\<rparr>,
          \<lparr>item = ''Gloves'', description = ''Chemical-resistant gloves''\<rparr>]"
    by simp
  with positions have "us = [\<lparr>item = ''Safety Glasses'', description = ''Basic eye protection''\<rparr>,
          \<lparr>item = ''Respirator'', description = ''Protection against inhalation of toxic substances''\<rparr>,
          \<lparr>item = ''Gloves'', description = ''Chemical-resistant gloves''\<rparr>]"
    by (simp add: five all_less_Suc del: upt_Suc)
  with us recs show ?thesis by simp
qed

text \<open>
  Claim C10. The set of items that \<open>get_ppe_recommendations\<close> recommends depends only on
  the set of hazard codes extracted from the input: two hazard lists with the same set
  of codes (permutations of one another, lists that differ in duplicates or in entries
  that are not strings) get the same set of items.
\<close>

theorem get_ppe_recommendations_same_codes_same_items:
  assumes "hazard_codes hazards1 = hazard_codes hazards2"
  shows "\<exists>ppe1 ppe2.
     get_ppe_recommendations hazards1 = Inr ppe1 \<and>
     get_ppe_recommendations hazards2 = Inr ppe2 \<and>
     item ` set ppe1 = item ` set ppe2"
proof -
  have items: "\<exists>ppes. get_ppe_recommendations hs = Inr ppes \<and>
      item ` set ppes =
        insert ''Safety Glasses'' (\<Union>c\<in>hazard_codes hs. item ` set (add_ppe_for_code [] c))" for hs
    using items_of_entries [of hs]
    by (simp add: get_ppe_recommendations_eq remove_duplicates_items)
  from items [of hazards1] items [of hazards2] assms show ?thesis
    by auto
qed

text \<open>The theorem at a concrete input.\<close>

theorem get_ppe_recommendations_same_codes_same_items_witness:
  "hazard_codes [JStr ''H300: Fatal if swallowed'', JStr ''H225''] =
     hazard_codes [JStr ''H225: Highly flammable'', JInt 1, JStr ''H300'', JStr ''H225''] \<and>
   (\<exists>ppe1 ppe2.
     get_ppe_recommendations [JStr ''H300: Fatal if swallowed'', JStr ''H225''] = Inr ppe1 \<and>
     get_ppe_recommendations [JStr ''H225: Highly flammable'', JInt 1, JStr ''H300'', JStr ''H225''] = Inr ppe2 \<and>
     item ` set ppe1 = item ` set ppe2)"
proof -
  have codes: "hazard_codes [JStr ''H300: Fatal if swallowed'', JStr ''H225''] =
     hazard_codes [JStr ''H225: Highly flammable'', JInt 1, JStr ''H300'', JStr ''H225'']"
    by (auto simp: hazard_code_def index0_def)
  from codes get_ppe_recommendations_same_codes_same_items [OF codes] show ?thesis
    by blast
qed


section \<open>Properties of \<^verbatim>\<open>hazard_to_symbol\<close>\<close>

lemma hazard_to_symbol_keys_distinct: "distinct (map fst hazard_to_symbol_hazard_map)"
  by (simp add: hazard_to_symbol_hazard_map_def)

text \<open>
  Claim C8. \<open>hazard_to_symbol\<close> is total on strings: for every string it returns a
  result and raises nothing; for a string that is not a key of its table the result is
  the fallback entry (question mark, \<open>Unknown hazard\<close>); for a key of the table it is the
  entry the table pairs with that key.
\<close>

theorem hazard_to_symbol_total_on_strings:
  "(\<exists>hazard_info. hazard_to_symbol (JStr code) = Inr hazard_info) \<and>
   (code \<notin> fst ` set hazard_to_symbol_hazard_map \<longrightarrow>
      hazard_to_symbol (JStr code) = Inr \<lparr>symbol = QUESTION_MARK, name = ''Unknown hazard''\<rparr>) \<and>
   (\<forall>entry. (code, entry) \<in> set hazard_to_symbol_hazard_map \<longrightarrow>
      hazard_to_symbol (JStr code) = Inr entry)"
proof (intro conjI allI impI)
  show "\<exists>hazard_info. hazard_to_symbol (JStr code) = Inr hazard_info"
    by (rule hazard_to_symbol_str_total)
next
  assume "code \<notin> fst ` set hazard_to_symbol_hazard_map"
  then have "map_of hazard_to_symbol_hazard_map code = None"
    by (simp add: map_of_eq_None_iff)
  then show "hazard_to_symbol (JStr code) = Inr \<lparr>symbol = QUESTION_MARK, name = ''Unknown hazard''\<rparr>"
    by (simp add: hazard_to_symbol_def dict_get_def)
next
  fix entry
  assume "(code, entry) \<in> set hazard_to_symbol_hazard_map"
  then have "map_of hazard_to_symbol_hazard_map code = Some entry"
    using hazard_to_symbol_keys_distinct by (rule map_of_is_SomeI[rotated])
  then show "hazard_to_symbol (JStr code) = Inr entry"
    by (simp add: hazard_to_symbol_def dict_get_def)
qed

text \<open>Two strings that are not keys (the second a whole hazard statement) and one key.\<close>

theorem hazard_to_symbol_total_on_strings_witness:
  "hazard_to_symbol (JStr ''H999'') = Inr \<lparr>symbol = QUESTION_MARK, name = ''Unknown hazard''\<rparr> \<and>
   hazard_to_symbol (JStr ''H225: Highly flammable liquid and vapor'') =
     Inr \<lparr>symbol = QUESTION_MARK, name = ''Unknown hazard''\<rparr> \<and>
   hazard_to_symbol (JStr ''H281'') =
     Inr \<lparr>symbol = AMPHORA @ SNOWFLAKE,
          name = ''Contains refrigerated gas; may cause cryogenic burns or injury''\<rparr>"
proof -
  have absent: "''H999'' \<notin> fst ` set hazard_to_symbol_hazard_map"
    "''H225: Highly flammable liquid and vapor'' \<notin> fst ` set hazard_to_symbol_hazard_map"
    by (simp_all add: hazard_to_symbol_hazard_map_def)
  have present: "(''H281'', \<lparr>symbol = AMPHORA @ SNOWFLAKE,
          name = ''Contains refrigerated gas; may cause cryogenic burns or injury''\<rparr>)
       \<in> set hazard_to_symbol_hazard_map"
    by (simp add: hazard_to_symbol_hazard_map_def)
  from absent present
    hazard_to_symbol_total_on_strings [of "''H999''"]
    hazard_to_symbol_total_on_strings [of "''H225: Highly flammable liquid and vapor''"]
    hazard_to_symbol_total_on_strings [of "''H281''"]
  show ?thesis by blast
qed


section \<open>The hazard-checker page\<close>

text \<open>The keys of the two dict literals are pairwise different, so the lists of
  their items represent them; every code of \<open>hazard_map\<close> has a handling instruction;
  with an empty input box the page shows its title and introduction only.\<close>

lemma hazard_checker_keys_distinct: "distinct (map fst (hazard_map hazard_checker_module))"
  by (simp add: hazard_checker_module_def)

lemma hazard_checker_every_code_has_instruction:
  "fst ` set (hazard_map hazard_checker_module) = fst ` set (handling_instructions hazard_checker_module)"
  by (simp add: hazard_checker_module_def)

lemma hazard_checker_main_empty:
  "snd (hazard_checker_main g '''') =
     [Title ''Hazard Symbol Checker'',
      Markdown ''Enter the hazard code to see the corresponding symbol and handling instructions.'']"
  by (simp add: hazard_checker_main_def)

text \<open>With the keys of \<open>hazard_map\<close> pairwise different, a code is a key with a given entry
  exactly when \<^verbatim>\<open>get\<close> returns that entry, and no key exactly when \<^verbatim>\<open>get\<close> returns
  \<^verbatim>\<open>None\<close>.\<close>

lemma hazard_checker_module_keys:
  "((code, hazard_info) \<in> set (hazard_map hazard_checker_module) \<longleftrightarrow>
      map_of (hazard_map hazard_checker_module) code = Some hazard_info) \<and>
   (code \<notin> fst ` set (hazard_map hazard_checker_module) \<longleftrightarrow>
      map_of (hazard_map hazard_checker_module) code = None)"
  using hazard_checker_keys_distinct by (simp add: map_of_eq_None_iff)

text \<open>
  Claim C3. A typed hazard code is a non-empty text of the input box. For any content
  \<open>g\<close> of the two tables: when \<open>hazard_map\<close> has an entry for the code, the page shows,
  below its title and introduction, the symbol and name of that entry and then the
  handling instruction that \<open>handling_instructions\<close> has for the code, or the fixed text
  \<open>No specific handling instructions available.\<close> when it has none; when \<open>hazard_map\<close>
  has no entry for the code, the page shows, below its title and introduction, the
  not-found warning and nothing else: no symbol. For the tables of the module this
  reads: every key of the static \<open>hazard_map\<close> gets its symbol, name and instruction
  line, every other typed code the warning only.
\<close>

theorem hazard_checker_main_shows:
  assumes "code \<noteq> []"
  shows
  "(\<forall>hazard_info handling_instruction.
      map_of (hazard_map g) code = Some hazard_info \<longrightarrow>
      map_of (handling_instructions g) code = Some handling_instruction \<longrightarrow>
      snd (hazard_checker_main g code) =
        [Title ''Hazard Symbol Checker'',
         Markdown ''Enter the hazard code to see the corresponding symbol and handling instructions.'',
         Markdown (''### Hazard Symbol: '' @ symbol hazard_info @ '' - '' @ name hazard_info),
         Markdown (''### Handling Instructions: '' @ handling_instruction)]) \<and>
   (\<forall>hazard_info.
      map_of (hazard_map g) code = Some hazard_info \<longrightarrow>
      map_of (handling_instructions g) code = None \<longrightarrow>
      snd (hazard_checker_main g code) =
        [Title ''Hazard Symbol Checker'',
         Markdown ''Enter the hazard code to see the corresponding symbol and handling instructions.'',
         Markdown (''### Hazard Symbol: '' @ symbol hazard_info @ '' - '' @ name hazard_info),
         Markdown ''### Handling Instructions: No specific handling instructions available.'']) \<and>
   (map_of (hazard_map g) code = None \<longrightarrow>
      snd (hazard_checker_main g code) =
        [Title ''Hazard Symbol Checker'',
         Markdown ''Enter the hazard code to see the corresponding symbol and handling instructions.'',
         Warning ''Hazard code not found. Please enter a valid code.'']) \<and>
   (\<forall>hazard_info.
      (code, hazard_info) \<in> set (hazard_map hazard_checker_module) \<longrightarrow>
      snd (hazard_checker_main hazard_checker_module code) =
        [Title ''Hazard Symbol Checker'',
         Markdown ''Enter the hazard code to see the corresponding symbol and handling instructions.'',
         Markdown (''### Hazard Symbol: '' @ symbol hazard_info @ '' - '' @ name hazard_info),
         Markdown (''### Handling Instructions: '' @
                   (case map_of (handling_instructions hazard_checker_module) code of
                      Some handling_instruction \<Rightarrow> handling_instruction
                    | None \<Rightarrow> ''No specific handling instructions available.''))]) \<and>
   (code \<notin> fst ` set (hazard_map hazard_checker_module) \<longrightarrow>
      snd (hazard_checker_main hazard_checker_module code) =
        [Title ''Hazard Symbol Checker'',
         Markdown ''Enter the hazard code to see the corresponding symbol and handling instructions.'',
         Warning ''Hazard code not found. Please enter a valid code.''])"
proof -
  have general: "snd (hazard_checker_main g' code) =
      [Title ''Hazard Symbol Checker'',
       Markdown ''Enter the hazard code to see the corresponding symbol and handling instructions.''] @
      (case map_of (hazard_map g') code of
         Some hazard_info \<Rightarrow>
           [Markdown (''### Hazard Symbol: '' @ symbol hazard_info @ '' - '' @ name hazard_info),
            Markdown (''### Handling Instructions: '' @
                      (case map_of (handling_instructions g') code of
                         Some handling_instruction \<Rightarrow> handling_instruction
                       | None \<Rightarrow> ''No specific handling instructions available.''))]
       | None \<Rightarrow> [Warning ''Hazard code not found. Please enter a valid code.''])" for g'
    using assms by (simp add: hazard_checker_main_def)
  show ?thesis
    unfolding hazard_checker_module_keys [THEN conjunct1] hazard_checker_module_keys [THEN conjunct2]
    by (simp add: general)
qed

text \<open>The page for the key \<open>H314\<close>, for \<open>H225\<close>, which is no key of this table, and for
  \<open>H314\<close> when \<open>handling_instructions\<close> has no entry for it.\<close>

theorem hazard_checker_main_shows_witness:
  "snd (hazard_checker_main hazard_checker_module ''H314'') =
     [Title ''Hazard Symbol Checker'',
      Markdown ''Enter the hazard code to see the corresponding symbol and handling instructions.'',
      Markdown (''### Hazard Symbol: '' @ WARNING_SIGN @ '' - Causes severe skin burns and eye damage''),
      Markdown ''### Handling Instructions: Wear protective gloves and eye protection.''] \<and>
   snd (hazard_checker_main hazard_checker_module ''H225'') =
     [Title ''Hazard Symbol Checker'',
      Markdown ''Enter the hazard code to see the corresponding symbol and handling instructions.'',
      Warning ''Hazard code not found. Please enter a valid code.''] \<and>
   snd (hazard_checker_main (hazard_checker_module\<lparr>handling_instructions := []\<rparr>) ''H314'') =
     [Title ''Hazard Symbol Checker'',
      Markdown ''Enter the hazard code to see the corresponding symbol and handling instructions.'',
      Markdown (''### Hazard Symbol: '' @ WARNING_SIGN @ '' - Causes severe skin burns and eye damage''),
      Markdown ''### Handling Instructions: No specific handling instructions available.'']"
proof -
  have typed: "''H314'' \<noteq> []" "''H225'' \<noteq> []"
    by simp_all
  have entry: "map_of (hazard_map hazard_checker_module) ''H314'' =
      Some \<lparr>symbol = WARNING_SIGN, name = ''Causes severe skin burns and eye damage''\<rparr>"
    by (simp add: hazard_checker_module_def)
  have entry': "map_of (hazard_map (hazard_checker_module\<lparr>handling_instructions := []\<rparr>)) ''H314'' =
      Some \<lparr>symbol = WARNING_SIGN, name = ''Causes severe skin burns and eye damage''\<rparr>"
    by (simp add: hazard_checker_module_def)
  have instruction: "map_of (handling_instructions hazard_checker_module) ''H314'' =
      Some ''Wear protective gloves and eye protection.''"
    by (simp add: hazard_checker_module_def)
  have no_instruction:
    "map_of (handling_instructions (hazard_checker_module\<lparr>handling_instructions := []\<rparr>)) ''H314'' = None"
    by simp
  have no_entry: "map_of (hazard_map hazard_checker_module) ''H225'' = None"
    by (simp add: hazard_checker_module_def)
  have known: "snd (hazard_checker_main hazard_checker_module ''H314'') =
     [Title ''Hazard Symbol Checker'',
      Markdown ''Enter the hazard code to see the corresponding symbol and handling instructions.'',
      Markdown (''### Hazard Symbol: '' @ WARNING_SIGN @ '' - Causes severe skin burns and eye damage''),
      Markdown ''### Handling Instructions: Wear protective gloves and eye protection.'']"
    using hazard_checker_main_shows [OF typed(1), of hazard_checker_module, THEN conjunct1,
        rule_format, OF entry instruction]
    by simp
  have unknown: "snd (hazard_checker_main hazard_checker_module ''H225'') =
     [Title ''Hazard Symbol Checker'',
      Markdown ''Enter the hazard code to see the corresponding symbol and handling instructions.'',
      Warning ''Hazard code not found. Please enter a valid code.'']"
    using hazard_checker_main_shows [OF typed(2), of hazard_checker_module, THEN conjunct2,
        THEN conjunct2, THEN conjunct1, rule_format, OF no_entry]
    by simp
  have fallback:
    "snd (hazard_checker_main (hazard_checker_module\<lparr>handling_instructions := []\<rparr>) ''H314'') =
     [Title ''Hazard Symbol Checker'',
      Markdown ''Enter the hazard code to see the corresponding symbol and handling instructions.'',
      Markdown (''### Hazard Symbol: '' @ WARNING_SIGN @ '' - Causes severe skin burns and eye damage''),
      Markdown ''### Handling Instructions: No specific handling instructions available.'']"
    using hazard_checker_main_shows [OF typed(1),
        of "hazard_checker_module\<lparr>handling_instructions := []\<rparr>", THEN conjunct2, THEN conjunct1,
        rule_format, OF entry' no_instruction]
    by simp
  from known unknown fallback show ?thesis
    by (intro conjI)
qed

section \<open>Sessions: static tables, calls without state\<close>

lemma perform_keeps_globals: "fst (perform str_of g op) = g"
  by (cases op) (simp_all add: hazard_checker_main_def)

lemma run_keeps_globals: "fst (run str_of g ops) = g"
proof (induction ops arbitrary: g)
  case Nil
  then show ?case by simp
next
  case (Cons op ops)
  obtain g' out where step: "perform str_of g op = (g', out)"
    by (cases "perform str_of g op")
  obtain g'' outs where rest: "run str_of g' ops = (g'', outs)"
    by (cases "run str_of g' ops")
  have "g' = g"
    using perform_keeps_globals [of str_of g op] step by simp
  moreover have "g'' = g'"
    using Cons.IH [of g'] rest by simp
  ultimately show ?case
    using step rest by simp
qed

text \<open>
  Claim C7. The lookup tables are static. After any sequence of hazard lookups, symbol
  lookups, PPE computations and SDS generations, started when the module has been loaded,
  \<open>hazard_map\<close> and \<open>handling_instructions\<close> hold the entries they were defined with, and
  \<open>hazard_to_symbol\<close> still answers from the entries of its table literal.
\<close>

theorem lookup_tables_static:
  "hazard_map (fst (run str_of hazard_checker_module ops)) = hazard_map hazard_checker_module \<and>
   handling_instructions (fst (run str_of hazard_checker_module ops)) =
     handling_instructions hazard_checker_module \<and>
   snd (perform str_of (fst (run str_of hazard_checker_module ops)) (HazardToSymbol (JStr code))) =
     SymbolResult (Inr (case map_of hazard_to_symbol_hazard_map code of
                          Some entry \<Rightarrow> entry
                        | None \<Rightarrow> \<lparr>symbol = QUESTION_MARK, name = ''Unknown hazard''\<rparr>))"
  by (simp add: run_keeps_globals hazard_to_symbol_def dict_get_def)

text \<open>A session of five calls leaves \<open>hazard_map\<close> as it was.\<close>

theorem lookup_tables_static_witness:
  "hazard_map (fst (run (\<lambda>v. ''7'') hazard_checker_module
       [CheckHazard ''H200'', HazardToSymbol (JStr ''H200''), GetPpeRecommendations [JStr ''H300''],
        GenerateSds ''Acetone'' [JStr ''H225'', JInt 7] [], CheckHazard ''nothing''])) =
     hazard_map hazard_checker_module"
  by (rule lookup_tables_static [THEN conjunct1])

text \<open>The heap functions return what the functions without heap return, from every heap,
  and they write to no object that existed before the call.\<close>

lemma add_ppe_for_code_heap_eq:
  "add_ppe_for_code_heap h r code =
     h\<lparr>list_cells := (list_cells h)(r := add_ppe_for_code (list_cells h r) code)\<rparr>"
  by (simp add: add_ppe_for_code_heap_def add_ppe_for_code_def list_append_def Let_def)

lemma add_ppe_for_hazards_heap_eq:
  "add_ppe_for_hazards_heap h r hazards =
     (h\<lparr>list_cells := (list_cells h)(r := list_cells h r @ concat (map ppe_of_entry hazards))\<rparr>,
      None)"
proof (induction hazards arbitrary: h)
  case Nil
  then show ?case by simp
next
  case (Cons hazard hazards)
  show ?case
  proof (cases hazard)
    case (JStr s)
    have "add_ppe_for_code (list_cells h r) (takeWhile (\<lambda>c. c \<noteq> CHR '':'') s) =
        list_cells h r @ add_ppe_for_code [] (takeWhile (\<lambda>c. c \<noteq> CHR '':'') s)"
      by (rule add_ppe_for_code_append)
    with JStr show ?thesis
      by (auto simp: hazard_code_eq Cons.IH add_ppe_for_code_heap_eq fun_eq_iff
          intro!: heap.equality)
  qed (simp_all add: Cons.IH)
qed

lemma remove_duplicates_heap_eq:
  "remove_duplicates_heap h u s recs =
     h\<lparr>list_cells := (list_cells h)(u := remove_duplicates (list_cells h u) (set_cells h s) recs),
       set_cells := (set_cells h)(s := set_cells h s \<union> item ` set recs)\<rparr>"
proof (induction recs arbitrary: h)
  case Nil
  then show ?case by simp
next
  case (Cons x recs)
  show ?case
  proof (cases "item x \<in> set_cells h s")
    case True
    then have "set_cells h s \<union> item ` set (x # recs) = set_cells h s \<union> item ` set recs"
      by auto
    with True show ?thesis
      by (simp add: Cons.IH del: Un_insert_right image_insert)
  next
    case False
    then show ?thesis
      by (auto simp: Cons.IH list_append_def set_add_def fun_eq_iff intro!: heap.equality)
  qed
qed

lemma old_objects_kept_refl: "old_objects_kept h h"
  by (simp add: old_objects_kept_def)

lemma old_objects_kept_trans:
  "old_objects_kept h h' \<Longrightarrow> old_objects_kept h' h'' \<Longrightarrow> old_objects_kept h h''"
  by (auto simp: old_objects_kept_def)

lemma hazard_to_symbol_heap_value: "snd (hazard_to_symbol_heap h hazard) = hazard_to_symbol hazard"
  by (simp add: hazard_to_symbol_heap_def new_dict_def hazard_to_symbol_def)

lemma hazard_to_symbol_heap_frame: "old_objects_kept h (fst (hazard_to_symbol_heap h hazard))"
  by (simp add: hazard_to_symbol_heap_def new_dict_def old_objects_kept_def)

lemma get_ppe_recommendations_heap_value:
  "returned_list (get_ppe_recommendations_heap h hazards) = get_ppe_recommendations hazards"
  by (simp add: get_ppe_recommendations_heap_def get_ppe_recommendations_def
      ppe_recommendations_def returned_list_def new_list_def new_set_def list_append_def
      add_ppe_for_hazards_heap_eq add_ppe_for_hazards_eq remove_duplicates_heap_eq)

lemma get_ppe_recommendations_heap_frame:
  "old_objects_kept h (fst (get_ppe_recommendations_heap h hazards))"
  by (simp add: get_ppe_recommendations_heap_def new_list_def new_set_def list_append_def
      add_ppe_for_hazards_heap_eq remove_duplicates_heap_eq old_objects_kept_def)

lemma sds_hazards_heap_value:
  "snd (sds_hazards_heap str_of h sds_content hazards) = sds_hazards str_of sds_content hazards"
proof (induction hazards arbitrary: h sds_content)
  case Nil
  then show ?case by simp
next
  case (Cons hazard hazards)
  obtain h1 r where step: "hazard_to_symbol_heap h hazard = (h1, r)"
    by (cases "hazard_to_symbol_heap h hazard")
  then have r: "r = hazard_to_symbol hazard"
    using hazard_to_symbol_heap_value [of h hazard] by simp
  show ?case
    by (cases "hazard_to_symbol hazard") (simp_all add: step r Cons.IH)
qed

lemma sds_hazards_heap_frame:
  "old_objects_kept h (fst (sds_hazards_heap str_of h sds_content hazards))"
proof (induction hazards arbitrary: h sds_content)
  case Nil
  then show ?case by (simp add: old_objects_kept_refl)
next
  case (Cons hazard hazards)
  obtain h1 r where step: "hazard_to_symbol_heap h hazard = (h1, r)"
    by (cases "hazard_to_symbol_heap h hazard")
  then have first: "old_objects_kept h h1"
    using hazard_to_symbol_heap_frame [of h hazard] by simp
  show ?case
  proof (cases r)
    case (Inl e)
    with step first show ?thesis by simp
  next
    case (Inr hazard_info)
    have "old_objects_kept h1
        (fst (sds_hazards_heap str_of h1
                (sds_content @ sds_hazard_item str_of hazard_info hazard) hazards))"
      by (rule Cons.IH)
    with first have "old_objects_kept h
        (fst (sds_hazards_heap str_of h1
                (sds_content @ sds_hazard_item str_of hazard_info hazard) hazards))"
      by (rule old_objects_kept_trans)
    with step Inr show ?thesis by simp
  qed
qed

lemma generate_sds_heap_value:
  "snd (generate_sds_heap str_of h chemical_name hazards ppes) =
     generate_sds str_of chemical_name hazards ppes"
proof -
  obtain h1 r where loop: "sds_hazards_heap str_of h (sds_head chemical_name) hazards = (h1, r)"
    by (cases "sds_hazards_heap str_of h (sds_head chemical_name) hazards")
  then have "r = sds_hazards str_of (sds_head chemical_name) hazards"
    using sds_hazards_heap_value [of str_of h "sds_head chemical_name" hazards] by simp
  with loop show ?thesis
    by (simp add: generate_sds_heap_def generate_sds_def split: sum.splits)
qed

lemma generate_sds_heap_frame:
  "old_objects_kept h (fst (generate_sds_heap str_of h chemical_name hazards ppes))"
proof -
  obtain h1 r where loop: "sds_hazards_heap str_of h (sds_head chemical_name) hazards = (h1, r)"
    by (cases "sds_hazards_heap str_of h (sds_head chemical_name) hazards")
  then have "old_objects_kept h h1"
    using sds_hazards_heap_frame [of h str_of "sds_head chemical_name" hazards] by simp
  with loop show ?thesis
    by (cases r) (simp_all add: generate_sds_heap_def)
qed

text \<open>
  Claim C6. \<open>hazard_to_symbol\<close>, \<open>get_ppe_recommendations\<close> and \<open>generate_sds\<close> carry no
  state from one call to the next and keep no cache. With the objects they create and
  modify as cells of a heap: called on equal inputs from any two heaps \<open>h1\<close> and \<open>h2\<close>,
  the heap that any earlier calls have left among them, each of the three returns the
  same value (for \<open>get_ppe_recommendations\<close> the content of the list it returns); and a
  call leaves every object that existed before it as it was, since it writes to objects
  of its own creation only.
\<close>

theorem calls_carry_no_state:
  "snd (hazard_to_symbol_heap h1 hazard) = snd (hazard_to_symbol_heap h2 hazard) \<and>
   returned_list (get_ppe_recommendations_heap h1 hazards) =
     returned_list (get_ppe_recommendations_heap h2 hazards) \<and>
   snd (generate_sds_heap str_of h1 chemical_name hazards ppes) =
     snd (generate_sds_heap str_of h2 chemical_name hazards ppes) \<and>
   old_objects_kept h1 (fst (hazard_to_symbol_heap h1 hazard)) \<and>
   old_objects_kept h1 (fst (get_ppe_recommendations_heap h1 hazards)) \<and>
   old_objects_kept h1 (fst (generate_sds_heap str_of h1 chemical_name hazards ppes))"
  by (simp add: hazard_to_symbol_heap_value get_ppe_recommendations_heap_value
      generate_sds_heap_value hazard_to_symbol_heap_frame get_ppe_recommendations_heap_frame
      generate_sds_heap_frame)

text \<open>A call of \<^verbatim>\<open>get_ppe_recommendations\<close> from the heap that an earlier call, on another
  hazard list, has left with three objects, and the same call from the empty heap.\<close>

theorem calls_carry_no_state_witness:
  "next_free (fst (get_ppe_recommendations_heap empty_heap [JStr ''H300''])) = 3 \<and>
   returned_list
     (get_ppe_recommendations_heap
        (fst (get_ppe_recommendations_heap empty_heap [JStr ''H300''])) [JStr ''H225'']) =
   returned_list (get_ppe_recommendations_heap empty_heap [JStr ''H225'']) \<and>
   old_objects_kept (fst (get_ppe_recommendations_heap empty_heap [JStr ''H300'']))
     (fst (get_ppe_recommendations_heap
             (fst (get_ppe_recommendations_heap empty_heap [JStr ''H300''])) [JStr ''H225'']))"
proof -
  have used: "next_free (fst (get_ppe_recommendations_heap empty_heap [JStr ''H300''])) = 3"
    by (simp add: get_ppe_recommendations_heap_def new_list_def new_set_def list_append_def
        add_ppe_for_hazards_heap_eq remove_duplicates_heap_eq empty_heap_def)
  note no_state = calls_carry_no_state
    [of "fst (get_ppe_recommendations_heap empty_heap [JStr ''H300''])" JNull empty_heap
        "[JStr ''H225'']" "\<lambda>v. []" "[]" "[]"]
  from used no_state show ?thesis
    by (intro conjI) (rule used, rule no_state [THEN conjunct2, THEN conjunct1],
        rule no_state [THEN conjunct2, THEN conjunct2, THEN conjunct2, THEN conjunct2, THEN conjunct1])
qed

section \<open>The safety data sheet\<close>

lemma sds_hazards_unhashable:
  "\<not> list_all hashable hazards \<Longrightarrow> sds_hazards str_of sds_content hazards = Inl TypeError"
proof (induction hazards arbitrary: sds_content)
  case Nil
  then show ?case by simp
next
  case (Cons h hs)
  then show ?case
    by (cases h) (auto simp: hazard_to_symbol_def dict_get_def)
qed

lemma generate_sds_unhashable:
  "\<not> list_all hashable hazards \<Longrightarrow> generate_sds str_of chemical_name hazards ppes = Inl TypeError"
  by (simp add: generate_sds_def sds_hazards_unhashable)

lemma hazard_to_symbol_hashable: "hashable h \<Longrightarrow> \<exists>hazard_info. hazard_to_symbol h = Inr hazard_info"
  by (cases h) (simp_all add: hazard_to_symbol_def dict_get_def)

lemma sds_hazards_hashable:
  "list_all hashable hazards \<Longrightarrow>
   \<exists>infos. map hazard_to_symbol hazards = map Inr infos \<and>
     sds_hazards str_of sds_content hazards =
       Inr (sds_content @ concat (map2 (sds_hazard_item str_of) infos hazards))"
proof (induction hazards arbitrary: sds_content)
  case Nil
  then show ?case by simp
next
  case (Cons h hs)
  from Cons.prems have h: "hashable h" and hs: "list_all hashable hs"
    by simp_all
  obtain info where info: "hazard_to_symbol h = Inr info"
    using hazard_to_symbol_hashable [OF h] by blast
  obtain infos where infos: "map hazard_to_symbol hs = map Inr infos"
    and rest: "sds_hazards str_of (sds_content @ sds_hazard_item str_of info h) hs =
       Inr ((sds_content @ sds_hazard_item str_of info h) @ concat (map2 (sds_hazard_item str_of) infos hs))"
    using Cons.IH [OF hs, of "sds_content @ sds_hazard_item str_of info h"] by blast
  have "map hazard_to_symbol (h # hs) = map Inr (info # infos)"
    using info infos by simp
  moreover have "sds_hazards str_of sds_content (h # hs) =
       Inr (sds_content @ concat (map2 (sds_hazard_item str_of) (info # infos) (h # hs)))"
    using info rest by simp
  ultimately show ?case by blast
qed

lemma sds_ppe_eq: "sds_ppe sds_content ppes = sds_content @ concat (map sds_ppe_item ppes)"
  by (induction ppes arbitrary: sds_content) simp_all

text \<open>
  Property X1. For every chemical name, every hazard list whose entries are all hashable
  (strings, numbers, booleans, \<^verbatim>\<open>None\<close>) and every list of PPE recommendations,
  \<open>generate_sds\<close> returns the text made of the opening of the sheet with the chemical
  name, one list item per hazard with the symbol and name that \<open>hazard_to_symbol\<close> gives
  for that hazard, the fixed sections 3 to 8 (first aid, fire fighting and storage among
  them), one list item per PPE recommendation with its item and description, and the
  closing text.
\<close>

theorem generate_sds_on_hashable_hazards:
  assumes "list_all hashable hazards"
  shows "\<exists>infos. map hazard_to_symbol hazards = map Inr infos \<and>
     generate_sds str_of chemical_name hazards ppes =
       Inr (sds_head chemical_name @
            concat (map2 (sds_hazard_item str_of) infos hazards) @
            sds_middle @
            concat (map sds_ppe_item ppes) @
            sds_tail)"
proof -
  obtain infos where "map hazard_to_symbol hazards = map Inr infos"
    and "sds_hazards str_of (sds_head chemical_name) hazards =
       Inr (sds_head chemical_name @ concat (map2 (sds_hazard_item str_of) infos hazards))"
    using sds_hazards_hashable [OF assms] by blast
  then show ?thesis
    by (simp add: generate_sds_def sds_ppe_eq)
qed

text \<open>A sheet with one hazard, a hazard statement that is no key of the table, and no
  PPE recommendation.\<close>

theorem generate_sds_on_hashable_hazards_witness:
  "generate_sds str_of ''Acetone'' [JStr ''H225: Highly flammable liquid and vapor''] [] =
     Inr (sds_head ''Acetone'' @
          sds_hazard_item str_of \<lparr>symbol = QUESTION_MARK, name = ''Unknown hazard''\<rparr>
            (JStr ''H225: Highly flammable liquid and vapor'') @
          sds_middle @ sds_tail)"
proof -
  have hashable: "list_all hashable [JStr ''H225: Highly flammable liquid and vapor'']"
    by simp
  have unknown: "hazard_to_symbol (JStr ''H225: Highly flammable liquid and vapor'') =
      Inr \<lparr>symbol = QUESTION_MARK, name = ''Unknown hazard''\<rparr>"
    by (simp add: hazard_to_symbol_def dict_get_def hazard_to_symbol_hazard_map_def)
  obtain infos where infos:
      "map hazard_to_symbol [JStr ''H225: Highly flammable liquid and vapor''] = map Inr infos"
    and sheet: "generate_sds str_of ''Acetone'' [JStr ''H225: Highly flammable liquid and vapor''] [] =
       Inr (sds_head ''Acetone'' @
            concat (map2 (sds_hazard_item str_of) infos [JStr ''H225: Highly flammable liquid and vapor'']) @
            sds_middle @ concat (map sds_ppe_item []) @ sds_tail)"
    using generate_sds_on_hashable_hazards [OF hashable, of str_of "''Acetone''" "[]"] by blast
  from infos unknown have "infos = [\<lparr>symbol = QUESTION_MARK, name = ''Unknown hazard''\<rparr>]"
    by (cases infos) auto
  with sheet show ?thesis by simp
qed

text \<open>
  Claim C5 says that \<open>generate_sds\<close> returns the assembled sheet for every chemical name,
  hazard list and list of PPE recommendations. \<^verbatim>\<open>interpret_hazards\<close> appends
  \<^verbatim>\<open>coord['aid']\<close> to the hazard list as it finds it, and the other two loops over the
  list skip entries that are not strings; the loop of \<open>generate_sds\<close> passes every entry
  to \<open>hazard_to_symbol\<close>. On a hazard list that holds a JSON array the call returns no
  sheet: it raises \<^verbatim>\<open>TypeError\<close>.
\<close>

theorem generate_sds_unhashable_hazard:
  "generate_sds str_of ''Acetone'' [JArr [JInt 1, JInt 2, JInt 3]]
     [\<lparr>item = ''Safety Glasses'', description = ''Basic eye protection''\<rparr>] = Inl TypeError"
  by (simp add: generate_sds_def hazard_to_symbol_def dict_get_def)


section \<open>The remote lookup\<close>

text \<open>
  Claim C2, amended. \<open>get_pubchem_data\<close> never lets an exception out. It returns
  \<^verbatim>\<open>success=True\<close> with the compound data exactly when both requests return a response
  with status code 200, the first body yields a compound id under
  \<^verbatim>\<open>['IdentifierList']['CID'][0]\<close> and the second body decodes as JSON, the data being
  that decoded body. A first status code other than 200 gives \<^verbatim>\<open>success=False\<close> with the
  message \<open>Chemical not found or error in PubChem API\<close>; a second status code other than
  200 gives \<^verbatim>\<open>success=False\<close> with \<open>Failed to fetch compound details\<close>. Failure is also
  detected by the \<^verbatim>\<open>try\<close> statement: an exception raised by either request, by the
  extraction of the compound id or by the decoding of the second body gives
  \<^verbatim>\<open>success=False\<close> with the text of that exception.
\<close>

theorem get_pubchem_data_outcomes:
  "(get_pubchem_data requests_get str_of chemical_name = Success compound_data \<longleftrightarrow>
      (\<exists>response cid compound_response.
         requests_get (cid_url chemical_name) = Inr response \<and>
         status_code response = 200 \<and>
         first_cid response = Inr cid \<and>
         requests_get (compound_url str_of cid) = Inr compound_response \<and>
         status_code compound_response = 200 \<and>
         json compound_response = Inr compound_data)) \<and>
   (\<forall>response.
      requests_get (cid_url chemical_name) = Inr response \<longrightarrow>
      status_code response \<noteq> 200 \<longrightarrow>
      get_pubchem_data requests_get str_of chemical_name =
        Failure (Message ''Chemical not found or error in PubChem API'')) \<and>
   (\<forall>response cid compound_response.
      requests_get (cid_url chemical_name) = Inr response \<longrightarrow>
      status_code response = 200 \<longrightarrow>
      first_cid response = Inr cid \<longrightarrow>
      requests_get (compound_url str_of cid) = Inr compound_response \<longrightarrow>
      status_code compound_response \<noteq> 200 \<longrightarrow>
      get_pubchem_data requests_get str_of chemical_name =
        Failure (Message ''Failed to fetch compound details'')) \<and>
   (\<forall>e. requests_get (cid_url chemical_name) = Inl e \<longrightarrow>
      get_pubchem_data requests_get str_of chemical_name = Failure (StrOfException e)) \<and>
   (\<forall>response e.
      requests_get (cid_url chemical_name) = Inr response \<longrightarrow>
      status_code response = 200 \<longrightarrow>
      first_cid response = Inl e \<longrightarrow>
      get_pubchem_data requests_get str_of chemical_name = Failure (StrOfException e)) \<and>
   (\<forall>response cid e.
      requests_get (cid_url chemical_name) = Inr response \<longrightarrow>
      status_code response = 200 \<longrightarrow>
      first_cid response = Inr cid \<longrightarrow>
      requests_get (compound_url str_of cid) = Inl e \<longrightarrow>
      get_pubchem_data requests_get str_of chemical_name = Failure (StrOfException e)) \<and>
   (\<forall>response cid compound_response e.
      requests_get (cid_url chemical_name) = Inr response \<longrightarrow>
      status_code response = 200 \<longrightarrow>
      first_cid response = Inr cid \<longrightarrow>
      requests_get (compound_url str_of cid) = Inr compound_response \<longrightarrow>
      status_code compound_response = 200 \<longrightarrow>
      json compound_response = Inl e \<longrightarrow>
      get_pubchem_data requests_get str_of chemical_name = Failure (StrOfException e))"
  unfolding get_pubchem_data_def get_pubchem_data_try_def
  by (auto split: sum.splits)

lemma pubchem_water_cid:
  "first_cid \<lparr>status_code = 200,
      json = Inr (JObj [(''IdentifierList'', JObj [(''CID'', JArr [JInt 962])])])\<rparr> = Inr (JInt 962)"
  by (simp add: first_cid_def subscript_def subscript0_def index0_def)

lemma compound_url_962: "compound_url str_of_cid (JInt 962) = base_url @ ''/compound/cid/962/JSON''"
  by (simp add: compound_url_def format_value_def str_of_cid_def)

lemma compound_url_not_cid_url: "base_url @ ''/compound/cid/962/JSON'' \<noteq> cid_url ''water''"
  by (simp add: cid_url_def base_url_def)

text \<open>The service that knows water, asked for water and for a name it does not know.\<close>

theorem get_pubchem_data_outcomes_witness:
  "get_pubchem_data pubchem_water str_of_cid ''water'' = Success (JObj [(''PC_Compounds'', JArr [])]) \<and>
   get_pubchem_data pubchem_water str_of_cid ''no such chemical'' =
     Failure (Message ''Chemical not found or error in PubChem API'')"
proof -
  have first: "pubchem_water (cid_url ''water'') = Inr \<lparr>status_code = 200,
      json = Inr (JObj [(''IdentifierList'', JObj [(''CID'', JArr [JInt 962])])])\<rparr>"
    by (simp add: pubchem_water_def)
  have second: "pubchem_water (compound_url str_of_cid (JInt 962)) =
      Inr \<lparr>status_code = 200, json = Inr (JObj [(''PC_Compounds'', JArr [])])\<rparr>"
    unfolding compound_url_962 using compound_url_not_cid_url by (simp add: pubchem_water_def)
  have found: "\<exists>response cid compound_response.
         pubchem_water (cid_url ''water'') = Inr response \<and>
         status_code response = 200 \<and>
         first_cid response = Inr cid \<and>
         pubchem_water (compound_url str_of_cid cid) = Inr compound_response \<and>
         status_code compound_response = 200 \<and>
         json compound_response = Inr (JObj [(''PC_Compounds'', JArr [])])"
    using first second pubchem_water_cid by force
  have missing: "pubchem_water (cid_url ''no such chemical'') =
      Inr \<lparr>status_code = 404, json = Inl JSONDecodeError\<rparr>"
    by (simp add: pubchem_water_def cid_url_def base_url_def)
  note outcomes = get_pubchem_data_outcomes [of pubchem_water str_of_cid]
  have "get_pubchem_data pubchem_water str_of_cid ''water'' = Success (JObj [(''PC_Compounds'', JArr [])])"
    using outcomes [of "''water''" "JObj [(''PC_Compounds'', JArr [])]", THEN conjunct1] found
    by (rule iffD2)
  moreover have "get_pubchem_data pubchem_water str_of_cid ''no such chemical'' =
     Failure (Message ''Chemical not found or error in PubChem API'')"
    using outcomes [of "''no such chemical''" JNull, THEN conjunct2, THEN conjunct1] missing
    by simp
  ultimately show ?thesis by (rule conjI)
qed

text \<open>
  Claim C2 as it is stated fails: against the service that answers everything with
  status 200, both requests return status code 200 and the result is
  \<^verbatim>\<open>success=False\<close>, because the second body is not JSON.
\<close>

theorem get_pubchem_data_fails_with_both_status_200:
  "pubchem_not_json (cid_url ''water'') =
     Inr \<lparr>status_code = 200,
          json = Inr (JObj [(''IdentifierList'', JObj [(''CID'', JArr [JInt 962])])])\<rparr> \<and>
   pubchem_not_json (compound_url str_of_cid (JInt 962)) =
     Inr \<lparr>status_code = 200, json = Inl JSONDecodeError\<rparr> \<and>
   get_pubchem_data pubchem_not_json str_of_cid ''water'' = Failure (StrOfException JSONDecodeError) \<and>
   \<not> success (get_pubchem_data pubchem_not_json str_of_cid ''water'')"
proof -
  have first: "pubchem_not_json (cid_url ''water'') = Inr \<lparr>status_code = 200,
      json = Inr (JObj [(''IdentifierList'', JObj [(''CID'', JArr [JInt 962])])])\<rparr>"
    by (simp add: pubchem_not_json_def)
  have second: "pubchem_not_json (compound_url str_of_cid (JInt 962)) =
      Inr \<lparr>status_code = 200, json = Inl JSONDecodeError\<rparr>"
    unfolding compound_url_962 using compound_url_not_cid_url by (simp add: pubchem_not_json_def)
  have result: "get_pubchem_data pubchem_not_json str_of_cid ''water'' =
      Failure (StrOfException JSONDecodeError)"
    by (simp add: get_pubchem_data_def get_pubchem_data_try_def first second pubchem_water_cid)
  from first second result show ?thesis by simp
qed

end
